theory Spec2Isabelle
  imports Main "HOL-Library.Word"
begin

section \<open>Basic types\<close>

text \<open>
  Handles and filesystem ids are 64-bit values; \<^verbatim>\<open>UNDEF\<close> is all ones. A
  \<^verbatim>\<open>LocalPath\<close> is the list of its components, so that
  \<^verbatim>\<open>appendWithSeparator\<close> is list append and \<^verbatim>\<open>isContainingPathOf\<close> is the
  prefix test on components.
\<close>

type_synonym handle = "64 word"

definition UNDEF :: handle where
  "UNDEF = - 1"

type_synonym LocalPath = "string list"

definition appendWithSeparator :: "LocalPath \<Rightarrow> LocalPath \<Rightarrow> LocalPath" where
  "appendWithSeparator p q = p @ q"

definition isContainingPathOf :: "LocalPath \<Rightarrow> LocalPath \<Rightarrow> bool" where
  "isContainingPathOf d p = (take (length d) p = d)"

text \<open>The node types that sync.cpp names.\<close>

datatype nodetype_t = TYPE_UNKNOWN | FILENODE | FOLDERNODE

text \<open>
  \<^verbatim>\<open>FileFingerprint\<close>: size, mtime, four 32-bit CRC words and the validity flag.
\<close>

record FileFingerprint =
  fp_size :: int
  fp_mtime :: int
  fp_crc :: "32 word list"
  fp_isvalid :: bool

text \<open>
  Modelled from the spec: \<^verbatim>\<open>FileFingerprint::operator==\<close> is not among the sources;
  the spec (4.2) and the comments of \<^verbatim>\<open>syncEqual\<close> give it as equality of
  (size, mtime, crc).
\<close>

definition fingerprint_eq :: "FileFingerprint \<Rightarrow> FileFingerprint \<Rightarrow> bool" where
  "fingerprint_eq a b \<longleftrightarrow> fp_size a = fp_size b \<and> fp_mtime a = fp_mtime b \<and> fp_crc a = fp_crc b"

text \<open>
  What a \<^verbatim>\<open>FileAccess\<close> holds after a successful \<^verbatim>\<open>fopen\<close>, and the outcome of
  \<^verbatim>\<open>fopen\<close>: the opened file, or a failure with its \<^verbatim>\<open>retry\<close> flag.
\<close>

record FileAccess =
  fa_type :: nodetype_t
  fa_size :: int
  fa_mtime :: int
  fa_fsid :: handle
  fa_fsidvalid :: bool
  fa_mIsSymLink :: bool

datatype fopen_result = Opened FileAccess | OpenFailed bool

text \<open>
  \<^verbatim>\<open>FSNode\<close>, one scanned directory entry, and its default-constructed value (the
  member initialisers are declared outside the sources; every property below holds for
  any choice of them).
\<close>

record FSNode =
  fs_localname :: LocalPath
  fs_name :: string
  fs_fsid :: handle
  fs_type :: nodetype_t
  fs_size :: int
  fs_mtime :: int
  fs_fingerprint :: FileFingerprint
  fs_isSymlink :: bool
  fs_isBlocked :: bool
  fs_shortname :: "LocalPath option"

definition FileFingerprint_init :: FileFingerprint where
  "FileFingerprint_init = \<lparr>fp_size = -1, fp_mtime = 0, fp_crc = [0, 0, 0, 0], fp_isvalid = False\<rparr>"

definition FSNode_init :: FSNode where
  "FSNode_init =
     \<lparr>fs_localname = [], fs_name = [], fs_fsid = UNDEF, fs_type = TYPE_UNKNOWN, fs_size = 0,
      fs_mtime = 0, fs_fingerprint = FileFingerprint_init, fs_isSymlink = False,
      fs_isBlocked = False, fs_shortname = None\<rparr>"


section \<open>Transfer retry policy (file.cpp)\<close>

text \<open>
  The error codes that \<^verbatim>\<open>File::failed\<close> distinguishes. The enum itself is declared
  outside the sources at hand; every code that \<^verbatim>\<open>File::failed\<close> does not name is
  \<open>API_other\<close> with its numeric value.
\<close>

datatype error =
    API_EKEY | API_EBLOCKED | API_ENOENT | API_EINTERNAL | API_EACCESS | API_ETOOMANY
  | API_EREAD | API_EWRITE | API_EOVERQUOTA | API_EGOINGOVERQUOTA | API_other int

text \<open>
  \<^verbatim>\<open>bool File::failed(error e, MegaClient*)\<close>; the arguments besides \<open>e\<close> are the
  two fields it reads, \<^verbatim>\<open>transfer->failcount\<close> and \<^verbatim>\<open>syncxfer\<close>.
\<close>

definition File_failed :: "error \<Rightarrow> nat \<Rightarrow> bool \<Rightarrow> bool" where
  "File_failed e failcount syncxfer =
     (if e = API_EKEY then False
      else
        ((e \<noteq> API_EBLOCKED \<and> e \<noteq> API_ENOENT \<and> e \<noteq> API_EINTERNAL \<and> e \<noteq> API_EACCESS
            \<and> e \<noteq> API_ETOOMANY \<and> failcount < 16)
          \<and> \<not> ((e = API_EREAD \<or> e = API_EWRITE) \<and> failcount > 6))
        \<or> (syncxfer \<and> e \<noteq> API_EBLOCKED \<and> e \<noteq> API_EKEY \<and> failcount \<le> 8)
        \<or> e = API_EOVERQUOTA \<or> e = API_EGOINGOVERQUOTA)"

text \<open>
  The number of retries a transfer gets when every attempt fails with \<open>e\<close>, read off
  \<^verbatim>\<open>File::failed\<close>: the failure count has the value \<open>start\<close> at the first failure
  and grows by one with every retry, and the retries end at the first count at which
  \<^verbatim>\<open>File::failed\<close> refuses. \<open>start\<close> is 0 if the count holds the earlier failures and
  1 if it includes the current one. The count is cut off at \<open>bound\<close>.
\<close>

definition retries_granted :: "nat \<Rightarrow> nat \<Rightarrow> error \<Rightarrow> bool \<Rightarrow> nat" where
  "retries_granted start bound e syncxfer =
     length (takeWhile (\<lambda>failcount. File_failed e failcount syncxfer) [start..<bound])"


section \<open>Anti-flap check of a move source (sync.cpp)\<close>

definition FILE_UPDATE_DELAY_DS :: int where
  "FILE_UPDATE_DELAY_DS = 30"

definition FILE_UPDATE_MAX_DELAY_SECS :: int where
  "FILE_UPDATE_MAX_DELAY_SECS = 60"

text \<open>\<^verbatim>\<open>FileChangingState\<close>, with the initial values of its declaration (\<^verbatim>\<open>~0\<close> is -1).\<close>

record FileChangingState =
  updatedfilesize :: int
  updatedfilets :: int
  updatedfileinitialts :: int

definition FileChangingState_init :: FileChangingState where
  "FileChangingState_init =
     \<lparr>updatedfilesize = -1, updatedfilets = 0, updatedfileinitialts = 0\<rparr>"

text \<open>
  A \<^verbatim>\<open>bool\<close> function that executes \<^verbatim>\<open>return NULL;\<close> returns \<^verbatim>\<open>false\<close>.
\<close>

definition NULL_as_bool :: bool where
  "NULL_as_bool = False"

text \<open>
  \<^verbatim>\<open>MegaClient::checkIfFileIsChanging\<close>. The state is \<^verbatim>\<open>mFileChangingCheckState\<close>,
  \<open>currentsecs\<close> is the value of \<^verbatim>\<open>m_time()\<close>. The result is the returned flag, the
  map after the call, and whether event 99438 was sent. \<open>prevfa\<close> is the outcome of
  \<^verbatim>\<open>prevfa->fopen(fullPath)\<close> at the origin of the move.
  \<open>check_opened\<close> is the branch of a file that exists at the origin: it yields
  \<^verbatim>\<open>waitforupdate\<close> and the updated entry. Times and sizes are unbounded integers;
  the 64-bit subtraction \<^verbatim>\<open>currentsecs - prevfa->mtime\<close> of the code wraps for an
  mtime below \<^verbatim>\<open>currentsecs - 2^63\<close>, where the model's does not. The returned flag does
  not depend on it.
\<close>

definition check_opened :: "FileChangingState \<Rightarrow> int \<Rightarrow> int \<Rightarrow> int \<Rightarrow> bool \<times> FileChangingState" where
  "check_opened state currentsecs sz mt =
     (let (waitforupdate, state') =
            (if currentsecs \<ge> updatedfilets state then
               (if currentsecs - updatedfilets state < FILE_UPDATE_DELAY_DS div 10
                then (True, state)
                else if updatedfilesize state \<noteq> sz
                then (True, state\<lparr>updatedfilesize := sz, updatedfilets := currentsecs\<rparr>)
                else (False, state))
             else (False, state))
      in if \<not> waitforupdate then
           (if currentsecs \<ge> mt
            then (currentsecs - mt < FILE_UPDATE_DELAY_DS div 10, state')
            else (False, state'))
         else (waitforupdate, state'))"

definition checkIfFileIsChanging ::
  "(LocalPath \<rightharpoonup> FileChangingState) \<Rightarrow> int \<Rightarrow> fopen_result \<Rightarrow> LocalPath
     \<Rightarrow> bool \<times> (LocalPath \<rightharpoonup> FileChangingState) \<times> bool" where
  "checkIfFileIsChanging m currentsecs prevfa fullPath =
     (let state0 = (case m fullPath of None \<Rightarrow> FileChangingState_init | Some s \<Rightarrow> s);
          state = (if updatedfileinitialts state0 = 0
                   then state0\<lparr>updatedfileinitialts := currentsecs\<rparr> else state0)
      in if currentsecs \<ge> updatedfileinitialts state then
           (if currentsecs - updatedfileinitialts state \<le> FILE_UPDATE_MAX_DELAY_SECS then
              (let (waitforupdate, state') =
                     (case prevfa of
                        Opened fa \<Rightarrow> check_opened state currentsecs (fa_size fa) (fa_mtime fa)
                      | OpenFailed retry \<Rightarrow> (retry, state))
               in if waitforupdate
                  then (NULL_as_bool, m(fullPath \<mapsto> state'), False)
                  else (waitforupdate, m(fullPath := None), False))
            else (False, m(fullPath := None), True))
         else (False, m(fullPath := None), False))"


section \<open>Scan service (sync.cpp)\<close>

text \<open>
  The filesystem as the scan worker sees it, through \<^verbatim>\<open>FileAccess::fopen\<close>,
  \<^verbatim>\<open>DirAccess::dopen\<close>, the names that successive \<^verbatim>\<open>dnext\<close> calls yield for a
  directory (given \<^verbatim>\<open>followsymlinks\<close>), \<^verbatim>\<open>fsShortname\<close>, \<^verbatim>\<open>genfingerprint\<close> and
  \<^verbatim>\<open>toName\<close>. These are the platform layer, outside the sources.
\<close>

record ScanFs =
  sf_fopen :: "LocalPath \<Rightarrow> fopen_result"
  sf_dopen :: "LocalPath \<Rightarrow> bool"
  sf_dnext :: "LocalPath \<Rightarrow> bool \<Rightarrow> LocalPath list"
  sf_fsShortname :: "LocalPath \<Rightarrow> LocalPath option"
  sf_genfingerprint :: "LocalPath \<Rightarrow> FileFingerprint"
  sf_toName :: "LocalPath \<Rightarrow> string"

text \<open>
  \<^verbatim>\<open>ScanService::ScanRequest\<close> with the members its constructor initialises:
  \<open>mCookie\<close> is whether the waiter behind the weak pointer is still alive, \<open>mTarget\<close>
  the LocalNode the request refers to.
\<close>

record ScanRequest =
  mCookie :: bool
  mComplete :: bool
  mDebrisPath :: LocalPath
  mFollowSymLinks :: bool
  mResults :: "FSNode list"
  mTarget :: nat
  mTargetPath :: LocalPath

definition ScanRequest_new :: "bool \<Rightarrow> nat \<Rightarrow> LocalPath \<Rightarrow> bool \<Rightarrow> LocalPath \<Rightarrow> ScanRequest" where
  "ScanRequest_new cookie target localdebris followsymlinks targetPath =
     \<lparr>mCookie = cookie, mComplete = False, mDebrisPath = localdebris,
      mFollowSymLinks = followsymlinks, mResults = [], mTarget = target,
      mTargetPath = targetPath\<rparr>"

text \<open>\<^verbatim>\<open>ScanService::Worker::interrogate\<close>.\<close>

definition interrogate :: "ScanFs \<Rightarrow> LocalPath \<Rightarrow> LocalPath \<Rightarrow> FSNode" where
  "interrogate fs name path =
     (let result = FSNode_init\<lparr>fs_localname := name, fs_name := sf_toName fs name\<rparr>
      in case sf_fopen fs path of
           Opened fileAccess \<Rightarrow>
             (let result = result\<lparr>fs_fsid := 0,
                                  fs_isSymlink := fa_mIsSymLink fileAccess,
                                  fs_mtime := fa_mtime fileAccess,
                                  fs_size := fa_size fileAccess,
                                  fs_shortname := sf_fsShortname fs path,
                                  fs_type := fa_type fileAccess\<rparr>;
                  result = (if fa_fsidvalid fileAccess
                            then result\<lparr>fs_fsid := fa_fsid fileAccess\<rparr> else result)
              in if fs_type result = FILENODE
                 then result\<lparr>fs_fingerprint := sf_genfingerprint fs path\<rparr>
                 else result)
         | OpenFailed retry \<Rightarrow> result\<lparr>fs_isBlocked := retry\<rparr>)"

text \<open>
  \<^verbatim>\<open>ScanService::Worker::scan\<close>: every early \<^verbatim>\<open>return\<close> leaves the request as it
  is; the loop over \<^verbatim>\<open>dnext\<close> skips the debris and interrogates the rest.
\<close>

definition scan :: "ScanFs \<Rightarrow> ScanRequest \<Rightarrow> ScanRequest" where
  "scan fs request =
     (let debris = mDebrisPath request; path = mTargetPath request
      in if isContainingPathOf debris (mTargetPath request) then request
         else case sf_fopen fs path of
                OpenFailed retry \<Rightarrow> request
              | Opened fileAccess \<Rightarrow>
                  if fa_type fileAccess \<noteq> FOLDERNODE then request
                  else if \<not> sf_dopen fs path then request
                  else request\<lparr>mResults :=
                         map (\<lambda>name. interrogate fs name (appendWithSeparator path name))
                           (filter (\<lambda>name. \<not> isContainingPathOf debris (appendWithSeparator path name))
                              (sf_dnext fs path (mFollowSymLinks request)))\<rparr>)"

text \<open>
  One turn of \<^verbatim>\<open>ScanService::Worker::loop\<close> on a dequeued request: scan, mark the
  request complete, and tell the waiter if there still is one. The result is the
  request as its owner sees it afterwards and whether \<^verbatim>\<open>cookie->completed()\<close> ran.
\<close>

definition Worker_process :: "ScanFs \<Rightarrow> ScanRequest \<Rightarrow> ScanRequest \<times> bool" where
  "Worker_process fs request =
     (let request = scan fs request;
          request = request\<lparr>mComplete := True\<rparr>
      in (request, mCookie request))"

text \<open>
  Two filesystems for the examples: one on which nothing can be opened, and one whose
  every path is a readable directory without entries.
\<close>

definition fs_unreadable :: ScanFs where
  "fs_unreadable =
     \<lparr>sf_fopen = (\<lambda>p. OpenFailed False), sf_dopen = (\<lambda>p. False), sf_dnext = (\<lambda>p f. []),
      sf_fsShortname = (\<lambda>p. None), sf_genfingerprint = (\<lambda>p. FileFingerprint_init),
      sf_toName = concat\<rparr>"

definition fs_emptydir :: ScanFs where
  "fs_emptydir =
     \<lparr>sf_fopen = (\<lambda>p. Opened \<lparr>fa_type = FOLDERNODE, fa_size = 0, fa_mtime = 0, fa_fsid = 1,
                                fa_fsidvalid = True, fa_mIsSymLink = False\<rparr>),
      sf_dopen = (\<lambda>p. True), sf_dnext = (\<lambda>p f. []),
      sf_fsShortname = (\<lambda>p. None), sf_genfingerprint = (\<lambda>p. FileFingerprint_init),
      sf_toName = concat\<rparr>"


section \<open>Local debris (sync.cpp)\<close>

text \<open>
  The \<^verbatim>\<open>FileSystemAccess\<close> object: the filesystem behind it (\<open>world\<close>, left
  abstract) and the flags that its operations leave for the caller. The operations
  themselves are the platform layer, outside the sources, and are a parameter: each
  maps the object before the call to the returned value and the object after it.
\<close>

record 'w FileSystemAccess =
  world :: 'w
  transient_error :: bool
  target_exists :: bool
  skip_errorreport :: bool

record 'w fs_ops =
  mkdirlocal :: "'w FileSystemAccess \<Rightarrow> LocalPath \<Rightarrow> bool \<Rightarrow> bool \<times> 'w FileSystemAccess"
  renamelocal :: "'w FileSystemAccess \<Rightarrow> LocalPath \<Rightarrow> LocalPath \<Rightarrow> bool \<Rightarrow> bool \<times> 'w FileSystemAccess"
  fsShortname :: "'w FileSystemAccess \<Rightarrow> LocalPath \<Rightarrow> LocalPath option"
  fopen :: "'w FileSystemAccess \<Rightarrow> LocalPath \<Rightarrow> fopen_result"

text \<open>
  Everything the sync code asks of its collaborators is recorded, in order, as a list
  of calls: filesystem operations, client commands, application callbacks, and the
  \<^verbatim>\<open>LocalNode\<close> methods that are defined outside the sources. LocalNodes are named by
  their address, cloud nodes by their handle.
\<close>

datatype treestate_t = TREESTATE_PENDING | TREESTATE_SYNCING | TREESTATE_SYNCED

datatype action =
    Fs_mkdirlocal LocalPath bool
  | Fs_renamelocal LocalPath LocalPath bool
  | Client_startxfer_PUT nat
  | Client_startxfer_GET handle LocalPath
  | Client_putnodes handle string
  | Client_movetosyncdebris handle
  | Client_execsyncdeletions
  | Client_updateputs
  | Client_sendevent nat
  | App_syncupdate_local_move nat LocalPath
  | App_syncupdate_put nat LocalPath
  | App_syncupdate_get handle LocalPath
  | LocalNode_delete nat
  | LocalNode_setnameparent nat "nat option" "LocalPath option" "LocalPath option" bool
  | LocalNode_setnotseen nat nat
  | LocalNode_setUseBlocked nat
  | LocalNode_setScanBlocked nat
  | LocalNode_setFutureScan nat bool bool
  | LocalNode_treestate nat treestate_t

text \<open>
  The broken-down local time that \<^verbatim>\<open>m_localtime(m_time(), &tms)\<close> yields; the fields
  are non-negative for any time after 1900.
\<close>

record tm =
  tm_year :: nat
  tm_mon :: nat
  tm_mday :: nat
  tm_hour :: nat
  tm_min :: nat
  tm_sec :: nat

text \<open>\<^verbatim>\<open>sprintf\<close> with \<^verbatim>\<open>%0wd\<close> on a non-negative number.\<close>

function dec :: "nat \<Rightarrow> string" where
  "dec n = (if n < 10 then [''0123456789'' ! n] else dec (n div 10) @ [''0123456789'' ! (n mod 10)])"
  by pat_completeness auto
termination
  by (relation "measure id") auto

definition printf_0d :: "nat \<Rightarrow> nat \<Rightarrow> string" where
  "printf_0d w n = replicate (w - length (dec n)) CHR ''0'' @ dec n"

text \<open>
  The name of the debris folder tried in round \<open>i\<close> of \<^verbatim>\<open>movetolocaldebris\<close>: the
  date alone for the rounds -3, -2 and -1, the date with time of day and the round
  number from round 0 on.
\<close>

definition debris_day :: "tm \<Rightarrow> int \<Rightarrow> string" where
  "debris_day ptm i =
     printf_0d 4 (tm_year ptm + 1900) @ ''-'' @ printf_0d 2 (tm_mon ptm + 1) @ ''-''
       @ printf_0d 2 (tm_mday ptm)
       @ (if i \<ge> 0
          then '' '' @ printf_0d 2 (tm_hour ptm) @ ''.'' @ printf_0d 2 (tm_min ptm) @ ''.''
                 @ printf_0d 2 (tm_sec ptm) @ ''.'' @ printf_0d 2 (nat i)
          else [])"

text \<open>\<^verbatim>\<open>localpath.subpathFrom(localpath.getLeafnameByteIndex(...))\<close>.\<close>

definition leafname :: "LocalPath \<Rightarrow> LocalPath" where
  "leafname p = (if p = [] then [] else [last p])"

text \<open>
  \<^verbatim>\<open>Sync::movetolocaldebris\<close>. \<open>movetolocaldebris_round\<close> is the body of the
  \<^verbatim>\<open>for\<close> loop in round \<open>i\<close> up to and including the rename attempt: it yields
  whether the rename succeeded and the new \<^verbatim>\<open>havedir\<close>. \<open>localdebris\<close> is restored at
  the end of every round (\<^verbatim>\<open>ScopedLengthRestore\<close>), so it is the same in all of them.
  \<open>movetolocaldebris_loop\<close> is the loop from round \<open>i\<close> on.
\<close>

definition movetolocaldebris_round ::
  "'w fs_ops \<Rightarrow> tm \<Rightarrow> LocalPath \<Rightarrow> LocalPath \<Rightarrow> int \<Rightarrow> bool \<Rightarrow> 'w FileSystemAccess \<Rightarrow> action list
     \<Rightarrow> bool \<times> bool \<times> 'w FileSystemAccess \<times> action list" where
  "movetolocaldebris_round ops ptm localdebris localpath i havedir fsa tr =
     (let (fsa, tr) =
            (if i = -2 \<or> i > 95
             then (snd (mkdirlocal ops fsa localdebris True), tr @ [Fs_mkdirlocal localdebris True])
             else (fsa, tr));
          dayfolder = appendWithSeparator localdebris [debris_day ptm i];
          (havedir, fsa, tr) =
            (if i > -3
             then (let (ok, fsa) = mkdirlocal ops fsa dayfolder False
                   in (ok \<or> target_exists fsa, fsa, tr @ [Fs_mkdirlocal dayfolder False]))
             else (havedir, fsa, tr));
          target = appendWithSeparator dayfolder (leafname localpath);
          fsa = fsa\<lparr>skip_errorreport := (i = -3)\<rparr>;
          (renamed, fsa) = renamelocal ops fsa localpath target False;
          tr = tr @ [Fs_renamelocal localpath target False];
          fsa = fsa\<lparr>skip_errorreport := False\<rparr>
      in (renamed, havedir, fsa, tr))"

function movetolocaldebris_loop ::
  "'w fs_ops \<Rightarrow> tm \<Rightarrow> LocalPath \<Rightarrow> LocalPath \<Rightarrow> int \<Rightarrow> bool \<Rightarrow> 'w FileSystemAccess \<Rightarrow> action list
     \<Rightarrow> bool \<times> 'w FileSystemAccess \<times> action list" where
  "movetolocaldebris_loop ops ptm localdebris localpath i havedir fsa tr =
     (if i < 100 then
        (case movetolocaldebris_round ops ptm localdebris localpath i havedir fsa tr of
           (renamed, havedir, fsa, tr) \<Rightarrow>
             if renamed then (True, fsa, tr)
             else if transient_error fsa then (False, fsa, tr)
             else if havedir \<and> \<not> target_exists fsa then (False, fsa, tr)
             else movetolocaldebris_loop ops ptm localdebris localpath (i + 1) havedir fsa tr)
      else (False, fsa, tr))"
  by pat_completeness auto
termination
  by (relation "measure (\<lambda>(ops, ptm, localdebris, localpath, i, havedir, fsa, tr). nat (100 - i))")
    auto

definition movetolocaldebris ::
  "'w fs_ops \<Rightarrow> tm \<Rightarrow> LocalPath \<Rightarrow> LocalPath \<Rightarrow> 'w FileSystemAccess \<Rightarrow> action list
     \<Rightarrow> bool \<times> 'w FileSystemAccess \<times> action list" where
  "movetolocaldebris ops ptm localdebris localpath fsa tr =
     movetolocaldebris_loop ops ptm localdebris localpath (-3) False fsa tr"

text \<open>
  A filesystem for the examples on which every target already exists: no directory can
  be created and nothing can be renamed, and neither failure is transient.
\<close>

definition ops_all_exist :: "unit fs_ops" where
  "ops_all_exist =
     \<lparr>mkdirlocal = (\<lambda>fsa p hidden. (False, fsa\<lparr>target_exists := True, transient_error := False\<rparr>)),
      renamelocal = (\<lambda>fsa src dst ov. (False, fsa\<lparr>target_exists := True, transient_error := False\<rparr>)),
      fsShortname = (\<lambda>fsa p. None),
      fopen = (\<lambda>fsa p. OpenFailed False)\<rparr>"

definition fsa_init :: "unit FileSystemAccess" where
  "fsa_init = \<lparr>world = (), transient_error = False, target_exists = False, skip_errorreport = False\<rparr>"


section \<open>Reconciler state (sync.cpp)\<close>

text \<open>
  The levels of the per-node tree flags, in the order of \<^verbatim>\<open>>=\<close> on them.
\<close>

datatype TreeAction =
    SYNCTREE_RESOLVED | SYNCTREE_DESCENDANT_FLAGGED
  | SYNCTREE_ACTION_HERE_ONLY | SYNCTREE_ACTION_HERE_AND_BELOW

fun level :: "TreeAction \<Rightarrow> nat" where
  "level SYNCTREE_RESOLVED = 0"
| "level SYNCTREE_DESCENDANT_FLAGGED = 1"
| "level SYNCTREE_ACTION_HERE_ONLY = 2"
| "level SYNCTREE_ACTION_HERE_AND_BELOW = 3"

text \<open>
  \<^verbatim>\<open>LocalNode\<close>, with the members that the reconciler reads or writes. Its
  \<^verbatim>\<open>FileFingerprint\<close> base carries \<^verbatim>\<open>size\<close> and \<^verbatim>\<open>mtime\<close>. \<open>ln_sync\<close> names the
  owning \<^verbatim>\<open>Sync\<close>, \<open>ln_localpath\<close> is \<^verbatim>\<open>getLocalPath(true)\<close>, \<open>ln_blockedTimer\<close> is
  \<^verbatim>\<open>rare().blockedTimer\<close> (absent, or present and armed or not), \<open>ln_transfer\<close> is
  whether \<^verbatim>\<open>transfer\<close> is set, \<open>ln_node\<close> the cloud node pointer.
\<close>

record LocalNode =
  ln_type :: nodetype_t
  ln_fsid :: handle
  ln_syncedCloudNodeHandle :: handle
  ln_fingerprint :: FileFingerprint
  ln_sync :: nat
  ln_parent :: "nat option"
  ln_name :: string
  ln_localpath :: LocalPath
  ln_slocalname :: "LocalPath option"
  ln_useBlocked :: TreeAction
  ln_scanBlocked :: TreeAction
  ln_blockedTimer :: "bool option"
  ln_transfer :: bool
  ln_h :: handle
  ln_node :: "handle option"
  ln_dbid :: nat

text \<open>
  A cloud \<^verbatim>\<open>Node\<close>. A node is named by its handle, so \<^verbatim>\<open>nodehandle\<close> is the name
  itself; \<open>n_syncget\<close> is whether a download is attached.
\<close>

record Node =
  n_type :: nodetype_t
  n_fingerprint :: FileFingerprint
  n_parent :: "handle option"
  n_localnode :: "nat option"
  n_syncget :: bool

text \<open>\<^verbatim>\<open>syncRow\<close>: three pointers, each possibly null. The FSNode is held by value.\<close>

record syncRow =
  cloudNode :: "handle option"
  syncNode :: "nat option"
  fsNode :: "FSNode option"

text \<open>
  The reason of a \<^verbatim>\<open>SyncStallEntry\<close> (sync.h). The enum is declared outside the
  sources: sync.h names \<^verbatim>\<open>NoReason\<close> and \<^verbatim>\<open>FileIssue\<close>, and the third value is
  modelled from the spec (4.2). sync.cpp names none of them.
\<close>

datatype SyncWaitReason =
    NoReason | FileIssue | LocalAndRemoteChangedSinceLastSyncedState_userMustChoose

text \<open>
  The state that the reconciler works on: the LocalNodes by address and the cloud
  nodes by handle (\<open>known\<close> are the handles that \<^verbatim>\<open>nodebyhandle\<close> finds), the
  \<^verbatim>\<open>localnodeByFsid\<close> multimap in iteration order, the flags of client and sync, the
  state cache queues, the filesystem object, and the calls made so far. \<open>stall\<close> is
  \<^verbatim>\<open>SyncFlags::stall\<close> of sync.h, the \<^verbatim>\<open>local\<close> map of a \<^verbatim>\<open>SyncStallInfo\<close> with
  the reason of each entry, in the order of the \<^verbatim>\<open>waitingLocal\<close> calls; no function
  of sync.cpp refers to \<^verbatim>\<open>SyncFlags\<close>. \<open>win32\<close> is whether the build defines
  \<^verbatim>\<open>_WIN32\<close>, and \<open>driveLetter\<close> gives \<^verbatim>\<open>localroot->localname.driveLetter()\<close> of
  a sync.
\<close>

record 'w sync_state =
  localnodes :: "nat \<Rightarrow> LocalNode"
  next_localnode :: nat
  localnodeByFsid :: "(handle \<times> nat) list"
  cloudnodes :: "handle \<Rightarrow> Node"
  known :: "handle set"
  statecurrent :: bool
  fsStateCurrent :: bool
  fullscan :: bool
  canceled :: bool
  inshare :: bool
  syncactivity :: bool
  insertq :: "nat set"
  deleteq :: "nat set"
  mFileChangingCheckState :: "LocalPath \<rightharpoonup> FileChangingState"
  this_sync :: nat
  fsfingerprint :: "nat \<Rightarrow> 64 word"
  win32 :: bool
  driveLetter :: "nat \<Rightarrow> char"
  localdebris :: LocalPath
  fsaccess :: "'w FileSystemAccess"
  trace :: "action list"
  stall :: "(LocalPath \<times> SyncWaitReason) list"

text \<open>
  What a run depends on besides the state: the filesystem operations, the clock
  (\<^verbatim>\<open>m_time()\<close>) and the local time derived from it.
\<close>

record 'w env =
  env_ops :: "'w fs_ops"
  env_now :: int
  env_ptm :: tm

text \<open>
  Dereferencing a null pointer ends the run. Assertions are compiled out.
\<close>

datatype fault = NullPointerDereference

definition thenE :: "fault + 'a \<Rightarrow> ('a \<Rightarrow> fault + 'b) \<Rightarrow> fault + 'b" where
  "thenE m f = (case m of Inl e \<Rightarrow> Inl e | Inr x \<Rightarrow> f x)"

definition emit :: "action \<Rightarrow> 'w sync_state \<Rightarrow> 'w sync_state" where
  "emit a st = st\<lparr>trace := trace st @ [a]\<rparr>"

definition update_localnode :: "nat \<Rightarrow> (LocalNode \<Rightarrow> LocalNode) \<Rightarrow> 'w sync_state \<Rightarrow> 'w sync_state" where
  "update_localnode l f st = st\<lparr>localnodes := (localnodes st)(l := f (localnodes st l))\<rparr>"

definition nodebyhandle :: "'w sync_state \<Rightarrow> handle \<Rightarrow> handle option" where
  "nodebyhandle st h = (if h \<in> known st then Some h else None)"

text \<open>\<^verbatim>\<open>Sync::statecacheadd\<close>.\<close>

definition statecacheadd :: "nat \<Rightarrow> 'w sync_state \<Rightarrow> 'w sync_state" where
  "statecacheadd l st =
     (if canceled st then st
      else
        (let st = (if ln_dbid (localnodes st l) \<noteq> 0
                   then st\<lparr>deleteq := deleteq st - {ln_dbid (localnodes st l)}\<rparr> else st)
         in st\<lparr>insertq := insert l (insertq st)\<rparr>))"

text \<open>
  Modelled from the spec: \<^verbatim>\<open>LocalNode::setfsid\<close> is outside the sources. By invariant
  1 of section 8 the index holds a node under its fsid exactly when that is not
  \<^verbatim>\<open>UNDEF\<close>; a new entry goes behind the older entries of the same key.
\<close>

definition setfsid :: "nat \<Rightarrow> handle \<Rightarrow> 'w sync_state \<Rightarrow> 'w sync_state" where
  "setfsid l newfsid st =
     (let idx = filter (\<lambda>(k, l'). l' \<noteq> l) (localnodeByFsid st);
          idx = (if newfsid \<noteq> UNDEF then idx @ [(newfsid, l)] else idx)
      in update_localnode l (\<lambda>ln. ln\<lparr>ln_fsid := newfsid\<rparr>) (st\<lparr>localnodeByFsid := idx\<rparr>))"

text \<open>
  Modelled from the spec: \<^verbatim>\<open>LocalNode::setnameparent\<close> is outside the sources. The call
  is recorded with its four arguments; per 4.2 and the comments at its call sites the
  node is re-parented and takes the new path and short name when they are given. What
  the fourth argument does is not in the sources; the properties below speak of the
  recorded call only.
\<close>

definition setnameparent ::
  "nat \<Rightarrow> nat option \<Rightarrow> LocalPath option \<Rightarrow> LocalPath option \<Rightarrow> bool \<Rightarrow> 'w sync_state \<Rightarrow> 'w sync_state" where
  "setnameparent l newparent newlocalpath newshortname arg4 st =
     update_localnode l
       (\<lambda>ln. ln\<lparr>ln_parent := newparent,
                ln_localpath := (case newlocalpath of None \<Rightarrow> ln_localpath ln | Some p \<Rightarrow> p),
                ln_slocalname := newshortname\<rparr>)
       (emit (LocalNode_setnameparent l newparent newlocalpath newshortname arg4) st)"

text \<open>
  Modelled from the spec: the destructor of \<^verbatim>\<open>LocalNode\<close> is outside the sources. The
  call is recorded and, by invariant 1 of section 8, the node leaves the fsid index.
\<close>

definition delete_LocalNode :: "nat \<Rightarrow> 'w sync_state \<Rightarrow> 'w sync_state" where
  "delete_LocalNode l st =
     emit (LocalNode_delete l)
       (st\<lparr>localnodeByFsid := filter (\<lambda>(k, l'). l' \<noteq> l) (localnodeByFsid st)\<rparr>)"

text \<open>
  \<^verbatim>\<open>MegaClient::findLocalNodeByFsid\<close>. \<open>findLocalNodeByFsid_range\<close> is the loop over
  \<^verbatim>\<open>equal_range(fsNode.fsid)\<close>; the only \<^verbatim>\<open>return it->second\<close> is inside the block
  for a node of another sync, and so is the drive letter test of the Windows build.
\<close>

fun findLocalNodeByFsid_range :: "'w sync_state \<Rightarrow> FSNode \<Rightarrow> nat \<Rightarrow> nat list \<Rightarrow> nat option" where
  "findLocalNodeByFsid_range st fsn filesystemSync [] = None"
| "findLocalNodeByFsid_range st fsn filesystemSync (l # rest) =
     (let ln = localnodes st l
      in if ln_type ln \<noteq> fs_type fsn
         then findLocalNodeByFsid_range st fsn filesystemSync rest
         else if ln_sync ln \<noteq> filesystemSync then
           (let fp1 = fsfingerprint st (ln_sync ln); fp2 = fsfingerprint st filesystemSync
            in if fp1 = 0 \<or> fp2 = 0 \<or> fp1 \<noteq> fp2
               then findLocalNodeByFsid_range st fsn filesystemSync rest
               else if win32 st \<and> driveLetter st (ln_sync ln) \<noteq> driveLetter st filesystemSync
               then findLocalNodeByFsid_range st fsn filesystemSync rest
               else if fs_type fsn = FILENODE
                       \<and> (fs_mtime fsn \<noteq> fp_mtime (ln_fingerprint ln)
                            \<or> fs_size fsn \<noteq> fp_size (ln_fingerprint ln))
               then findLocalNodeByFsid_range st fsn filesystemSync rest
               else Some l)
         else findLocalNodeByFsid_range st fsn filesystemSync rest)"

definition findLocalNodeByFsid :: "'w sync_state \<Rightarrow> FSNode \<Rightarrow> nat \<Rightarrow> nat option" where
  "findLocalNodeByFsid st fsn filesystemSync =
     (if fs_fsid fsn = UNDEF then None
      else findLocalNodeByFsid_range st fsn filesystemSync
             (map snd (filter (\<lambda>(k, l). k = fs_fsid fsn) (localnodeByFsid st))))"


section \<open>Move detection (sync.cpp)\<close>

text \<open>
  \<^verbatim>\<open>MegaClient::checkIfFileIsChanging\<close> on the client's map, with the file at the
  origin opened through the filesystem layer.
\<close>

definition MegaClient_checkIfFileIsChanging ::
  "'w env \<Rightarrow> 'w sync_state \<Rightarrow> LocalPath \<Rightarrow> bool \<times> 'w sync_state" where
  "MegaClient_checkIfFileIsChanging e st fullPath =
     (case checkIfFileIsChanging (mFileChangingCheckState st) (env_now e)
             (fopen (env_ops e) (fsaccess st) fullPath) fullPath of
        (changing, m, timeout) \<Rightarrow>
          (let st = st\<lparr>mFileChangingCheckState := m\<rparr>;
               st = (if timeout then emit (Client_sendevent 99438) st else st)
           in (changing, st)))"

text \<open>
  The end of \<^verbatim>\<open>checkLocalPathForMovesRenames\<close> for a row without LocalNode whose
  fsid was found: the found LocalNode is moved to the row's place.
\<close>

definition checkLocalPath_move ::
  "'w env \<Rightarrow> nat \<Rightarrow> syncRow \<Rightarrow> LocalPath \<Rightarrow> 'w sync_state \<Rightarrow> 'w sync_state" where
  "checkLocalPath_move e sourceLocalNode parentRow fullPath st =
     (let st = emit (App_syncupdate_local_move sourceLocalNode fullPath) st;
          st = setnameparent sourceLocalNode (syncNode parentRow) (Some fullPath)
                 (fsShortname (env_ops e) (fsaccess st) fullPath) False st;
          st = emit Client_updateputs st;
          st = statecacheadd sourceLocalNode st;
          st = emit (LocalNode_setnotseen sourceLocalNode 0) st;
          st = (if fullscan st \<and> ln_type (localnodes st sourceLocalNode) = FOLDERNODE
                then emit (LocalNode_setFutureScan sourceLocalNode True True) st
                else st)
      in st)"

text \<open>
  \<^verbatim>\<open>Sync::checkLocalPathForMovesRenames\<close>. The first component of the result is
  \<open>Some rowResult\<close> when the function returns \<^verbatim>\<open>true\<close> and \<open>None\<close> when it returns
  \<^verbatim>\<open>false\<close> (then \<^verbatim>\<open>rowResult\<close> is not set).
\<close>

definition checkLocalPathForMovesRenames ::
  "'w env \<Rightarrow> 'w sync_state \<Rightarrow> syncRow \<Rightarrow> syncRow \<Rightarrow> LocalPath
     \<Rightarrow> fault + (bool option \<times> syncRow \<times> 'w sync_state)" where
  "checkLocalPathForMovesRenames e st row parentRow fullPath =
     (case fsNode row of
        None \<Rightarrow> Inl NullPointerDereference
      | Some fsn \<Rightarrow>
       (case syncNode row of
          Some sn \<Rightarrow>
            if ln_type (localnodes st sn) = fs_type fsn then
              (let st = emit (LocalNode_setnotseen sn 0) st
               in if ln_type (localnodes st sn) = FILENODE then
                    (case findLocalNodeByFsid st fsn (this_sync st) of
                       Some sourceLocalNode \<Rightarrow>
                         if fp_mtime (ln_fingerprint (localnodes st sourceLocalNode)) \<noteq> fs_mtime fsn
                            \<or> fp_size (ln_fingerprint (localnodes st sourceLocalNode)) \<noteq> fs_size fsn
                         then Inr (None, row\<lparr>fsNode := Some (fsn\<lparr>fs_fsid := UNDEF\<rparr>)\<rparr>, st)
                         else
                           (let st = delete_LocalNode sn st;
                                row = row\<lparr>syncNode := None\<rparr>;
                                st = emit Client_execsyncdeletions st;
                                st = emit (App_syncupdate_local_move sourceLocalNode fullPath) st;
                                st = setnameparent sourceLocalNode (syncNode parentRow) (Some fullPath)
                                       (fsShortname (env_ops e) (fsaccess st) fullPath) True st;
                                st = emit (LocalNode_setnotseen sourceLocalNode 0) st;
                                st = statecacheadd sourceLocalNode st
                            in Inr (Some False, row, st))
                     | None \<Rightarrow> Inr (None, row, st))
                  else Inr (None, row, st))
            else Inr (None, row, st)
        | None \<Rightarrow>
            if fs_isSymlink fsn then Inl NullPointerDereference
            else
              (case findLocalNodeByFsid st fsn (this_sync st) of
                 Some sourceLocalNode \<Rightarrow>
                   (case (if ln_type (localnodes st sourceLocalNode) = FILENODE
                          then MegaClient_checkIfFileIsChanging e st
                                 (ln_localpath (localnodes st sourceLocalNode))
                          else (False, st)) of
                      (changing, st) \<Rightarrow>
                        if changing then Inr (Some False, row, st)
                        else Inr (None, row,
                                  checkLocalPath_move e sourceLocalNode parentRow fullPath st))
               | None \<Rightarrow> Inr (None, row, st))))"

text \<open>
  \<^verbatim>\<open>Sync::checkCloudPathForMovesRenames\<close>; it always returns \<^verbatim>\<open>false\<close>. The
  rename is called with two arguments; the third is recorded as \<open>True\<close>.
\<close>

definition checkCloudPathForMovesRenames ::
  "'w env \<Rightarrow> 'w sync_state \<Rightarrow> syncRow \<Rightarrow> syncRow \<Rightarrow> LocalPath
     \<Rightarrow> fault + (bool option \<times> syncRow \<times> 'w sync_state)" where
  "checkCloudPathForMovesRenames e st row parentRow fullPath =
     (case cloudNode row of
        None \<Rightarrow> Inl NullPointerDereference
      | Some c \<Rightarrow>
       (case n_localnode (cloudnodes st c) of
          None \<Rightarrow> Inr (None, row, st)
        | Some l \<Rightarrow>
            if ln_parent (localnodes st l) \<noteq> None then
              (let st = emit (LocalNode_treestate l TREESTATE_SYNCING) st;
                   sourcePath = ln_localpath (localnodes st l)
               in case renamelocal (env_ops e) (fsaccess st) sourcePath fullPath True of
                    (renamed, fsa) \<Rightarrow>
                      (let st = emit (Fs_renamelocal sourcePath fullPath True) (st\<lparr>fsaccess := fsa\<rparr>)
                       in if renamed then
                            (let st = emit (App_syncupdate_local_move l fullPath) st;
                                 st = setnameparent l (syncNode parentRow) (Some fullPath)
                                        (fsShortname (env_ops e) (fsaccess st) fullPath) False st;
                                 st = statecacheadd l st;
                                 st = emit Client_updateputs st;
                                 st = st\<lparr>syncactivity := True\<rparr>;
                                 st = emit (LocalNode_treestate l TREESTATE_SYNCED) st
                             in Inr (None, row, st))
                          else if transient_error (fsaccess st) then
                            (case syncNode row of
                               None \<Rightarrow> Inl NullPointerDereference
                             | Some sn \<Rightarrow> Inr (None, row, emit (LocalNode_setUseBlocked sn) st))
                          else Inr (None, row, st)))
            else Inr (None, row, st)))"


section \<open>Row resolution (sync.cpp)\<close>

text \<open>The two overloads of \<^verbatim>\<open>Sync::syncEqual\<close>.\<close>

definition syncEqual_cloud :: "Node \<Rightarrow> LocalNode \<Rightarrow> bool" where
  "syncEqual_cloud n ln =
     (if n_type n \<noteq> ln_type ln then False
      else if n_type n \<noteq> FILENODE then True
      else fingerprint_eq (n_fingerprint n) (ln_fingerprint ln))"

definition syncEqual_fs :: "FSNode \<Rightarrow> LocalNode \<Rightarrow> bool" where
  "syncEqual_fs fsn ln =
     (if fs_type fsn \<noteq> ln_type ln then False
      else if fs_type fsn \<noteq> FILENODE then True
      else fingerprint_eq (fs_fingerprint fsn) (ln_fingerprint ln))"

text \<open>
  A default-constructed \<^verbatim>\<open>LocalNode\<close> and the fields that \<^verbatim>\<open>LocalNode::init\<close> sets;
  both are declared outside the sources.
\<close>

definition LocalNode_new :: LocalNode where
  "LocalNode_new =
     \<lparr>ln_type = TYPE_UNKNOWN, ln_fsid = UNDEF, ln_syncedCloudNodeHandle = UNDEF,
      ln_fingerprint = FileFingerprint_init, ln_sync = 0, ln_parent = None, ln_name = [],
      ln_localpath = [], ln_slocalname = None, ln_useBlocked = SYNCTREE_RESOLVED,
      ln_scanBlocked = SYNCTREE_RESOLVED, ln_blockedTimer = None, ln_transfer = False,
      ln_h = UNDEF, ln_node = None, ln_dbid = 0\<rparr>"

definition LocalNode_init ::
  "nat \<Rightarrow> nodetype_t \<Rightarrow> nat option \<Rightarrow> LocalPath \<Rightarrow> LocalPath option \<Rightarrow> LocalNode \<Rightarrow> LocalNode" where
  "LocalNode_init csync ctype cparent cfullpath shortname ln =
     ln\<lparr>ln_sync := csync, ln_type := ctype, ln_parent := cparent, ln_localpath := cfullpath,
        ln_name := concat (leafname cfullpath), ln_slocalname := shortname\<rparr>"

definition resolve_makeSyncNode_fromFS ::
  "'w env \<Rightarrow> 'w sync_state \<Rightarrow> syncRow \<Rightarrow> syncRow \<Rightarrow> LocalPath
     \<Rightarrow> fault + (bool \<times> syncRow \<times> 'w sync_state)" where
  "resolve_makeSyncNode_fromFS e st row parentRow fullPath =
     (if \<not> fsStateCurrent st then Inr (False, row, st)
      else
        (case fsNode row of
           None \<Rightarrow> Inl NullPointerDereference
         | Some fsn \<Rightarrow>
             (let l = next_localnode st;
                  ln = (if fs_type fsn = FILENODE
                        then LocalNode_new\<lparr>ln_fingerprint := fs_fingerprint fsn\<rparr>
                        else LocalNode_new);
                  ln = LocalNode_init (this_sync st) (fs_type fsn) (syncNode parentRow) fullPath
                         (fs_shortname fsn) ln;
                  row = row\<lparr>fsNode := Some (fsn\<lparr>fs_shortname := None\<rparr>)\<rparr>;
                  st = st\<lparr>next_localnode := l + 1, localnodes := (localnodes st)(l := ln)\<rparr>;
                  st = setfsid l (fs_fsid fsn) st;
                  st = emit (LocalNode_treestate l TREESTATE_PENDING) st;
                  st = (if fs_type fsn \<noteq> FILENODE
                        then emit (LocalNode_setFutureScan l True True) st else st)
              in case syncNode parentRow of
                   None \<Rightarrow> Inl NullPointerDereference
                 | Some psn \<Rightarrow>
                     Inr (False, row,
                          statecacheadd l (emit (LocalNode_setFutureScan psn True False) st)))))"

definition resolve_makeSyncNode_fromCloud ::
  "'w env \<Rightarrow> 'w sync_state \<Rightarrow> syncRow \<Rightarrow> syncRow \<Rightarrow> LocalPath
     \<Rightarrow> fault + (bool \<times> syncRow \<times> 'w sync_state)" where
  "resolve_makeSyncNode_fromCloud e st row parentRow fullPath =
     (case cloudNode row of
        None \<Rightarrow> Inl NullPointerDereference
      | Some c \<Rightarrow>
          (let l = next_localnode st;
               ln = (if n_type (cloudnodes st c) = FILENODE
                     then LocalNode_new\<lparr>ln_fingerprint := n_fingerprint (cloudnodes st c)\<rparr>
                     else LocalNode_new);
               ln = LocalNode_init (this_sync st) (n_type (cloudnodes st c)) (syncNode parentRow)
                      fullPath None ln;
               ln = ln\<lparr>ln_syncedCloudNodeHandle := c\<rparr>;
               st = st\<lparr>next_localnode := l + 1, localnodes := (localnodes st)(l := ln)\<rparr>;
               st = emit (LocalNode_treestate l TREESTATE_PENDING) st;
               st = (if n_type (cloudnodes st c) \<noteq> FILENODE
                     then emit (LocalNode_setFutureScan l True True) st else st)
           in case syncNode parentRow of
                None \<Rightarrow> Inl NullPointerDereference
              | Some psn \<Rightarrow>
                  Inr (False, row,
                       statecacheadd l (emit (LocalNode_setFutureScan psn True False) st))))"

definition resolve_delSyncNode ::
  "'w env \<Rightarrow> 'w sync_state \<Rightarrow> syncRow \<Rightarrow> syncRow \<Rightarrow> LocalPath
     \<Rightarrow> fault + (bool \<times> syncRow \<times> 'w sync_state)" where
  "resolve_delSyncNode e st row parentRow fullPath =
     (case syncNode row of
        None \<Rightarrow> Inr (False, row, st)
      | Some sn \<Rightarrow> Inr (False, row\<lparr>syncNode := None\<rparr>, delete_LocalNode sn st))"

definition resolve_upsync ::
  "'w env \<Rightarrow> 'w sync_state \<Rightarrow> syncRow \<Rightarrow> syncRow \<Rightarrow> LocalPath
     \<Rightarrow> fault + (bool \<times> syncRow \<times> 'w sync_state)" where
  "resolve_upsync e st row parentRow fullPath =
     (case fsNode row of
        None \<Rightarrow> Inl NullPointerDereference
      | Some fsn \<Rightarrow>
       (case syncNode row of
          None \<Rightarrow> Inl NullPointerDereference
        | Some sn \<Rightarrow>
            if fs_type fsn = FILENODE then
              (if \<not> ln_transfer (localnodes st sn) then
                 (case cloudNode parentRow of
                    Some pc \<Rightarrow>
                      (let st = update_localnode sn (\<lambda>ln. ln\<lparr>ln_h := pc\<rparr>) st;
                           st = emit (Client_startxfer_PUT sn) st;
                           st = emit (App_syncupdate_put sn fullPath) st
                       in Inr (False, row, st))
                  | None \<Rightarrow> Inr (False, row, st))
               else Inr (False, row, st))
            else
              (case cloudNode parentRow of
                 None \<Rightarrow> Inl NullPointerDereference
               | Some pc \<Rightarrow>
                   Inr (False, row, emit (Client_putnodes pc (ln_name (localnodes st sn))) st))))"

definition resolve_downsync ::
  "'w env \<Rightarrow> 'w sync_state \<Rightarrow> syncRow \<Rightarrow> syncRow \<Rightarrow> LocalPath \<Rightarrow> bool
     \<Rightarrow> fault + (bool \<times> syncRow \<times> 'w sync_state)" where
  "resolve_downsync e st row parentRow fullPath alreadyExists =
     (case cloudNode row of
        None \<Rightarrow> Inl NullPointerDereference
      | Some c \<Rightarrow>
          if n_type (cloudnodes st c) = FILENODE then
            (if \<not> n_syncget (cloudnodes st c) then
               (let st = emit (App_syncupdate_get c fullPath) st;
                    st = st\<lparr>cloudnodes := (cloudnodes st)(c := (cloudnodes st c)\<lparr>n_syncget := True\<rparr>)\<rparr>;
                    st = emit (Client_startxfer_GET c fullPath) st
                in Inr (False, row, st))
             else Inr (False, row, st))
          else
            (case mkdirlocal (env_ops e) (fsaccess st) fullPath False of
               (made, fsa) \<Rightarrow>
                 (let st = emit (Fs_mkdirlocal fullPath False) (st\<lparr>fsaccess := fsa\<rparr>)
                  in if made then
                       (case syncNode parentRow of
                          None \<Rightarrow> Inl NullPointerDereference
                        | Some psn \<Rightarrow>
                            Inr (False, row, emit (LocalNode_setFutureScan psn True False) st))
                     else
                       (case syncNode row of
                          None \<Rightarrow> Inl NullPointerDereference
                        | Some sn \<Rightarrow> Inr (False, row, emit (LocalNode_setUseBlocked sn) st)))))"

text \<open>
  \<^verbatim>\<open>Sync::resolve_userIntervention\<close> and \<^verbatim>\<open>Sync::resolve_pickWinner\<close> only log
  \<^verbatim>\<open>"write me"\<close> and return \<^verbatim>\<open>false\<close>.
\<close>

definition resolve_userIntervention ::
  "'w env \<Rightarrow> 'w sync_state \<Rightarrow> syncRow \<Rightarrow> syncRow \<Rightarrow> LocalPath
     \<Rightarrow> fault + (bool \<times> syncRow \<times> 'w sync_state)" where
  "resolve_userIntervention e st row parentRow fullPath = Inr (False, row, st)"

definition resolve_pickWinner ::
  "'w env \<Rightarrow> 'w sync_state \<Rightarrow> syncRow \<Rightarrow> syncRow \<Rightarrow> LocalPath
     \<Rightarrow> fault + (bool \<times> syncRow \<times> 'w sync_state)" where
  "resolve_pickWinner e st row parentRow fullPath = Inr (False, row, st)"

definition resolve_cloudNodeGone ::
  "'w env \<Rightarrow> 'w sync_state \<Rightarrow> syncRow \<Rightarrow> syncRow \<Rightarrow> LocalPath
     \<Rightarrow> fault + (bool \<times> syncRow \<times> 'w sync_state)" where
  "resolve_cloudNodeGone e st row parentRow fullPath =
     (if \<not> statecurrent st then Inr (False, row, st)
      else
        (case syncNode row of
           None \<Rightarrow> Inl NullPointerDereference
         | Some sn \<Rightarrow>
            (case nodebyhandle st (ln_syncedCloudNodeHandle (localnodes st sn)) of
               Some n \<Rightarrow> Inr (False, row, st)
             | None \<Rightarrow>
                 (case movetolocaldebris (env_ops e) (env_ptm e) (localdebris st) fullPath
                         (fsaccess st) (trace st) of
                    (moved, fsa, tr) \<Rightarrow>
                      (let st = st\<lparr>fsaccess := fsa, trace := tr\<rparr>
                       in Inr (False, row, if moved then setfsid sn UNDEF st else st))))))"

definition resolve_fsNodeGone ::
  "'w env \<Rightarrow> 'w sync_state \<Rightarrow> syncRow \<Rightarrow> syncRow \<Rightarrow> LocalPath
     \<Rightarrow> fault + (bool \<times> syncRow \<times> 'w sync_state)" where
  "resolve_fsNodeGone e st row parentRow fullPath =
     (if \<not> fsStateCurrent st then Inr (False, row, st)
      else
        (case cloudNode row of
           None \<Rightarrow> Inl NullPointerDereference
         | Some c \<Rightarrow>
            (case syncNode row of
               None \<Rightarrow> Inl NullPointerDereference
             | Some sn \<Rightarrow>
                 Inr (False, row, emit (Client_movetosyncdebris c) (setfsid sn UNDEF st)))))"


section \<open>\<^verbatim>\<open>Sync::syncItem\<close> (sync.cpp)\<close>

text \<open>
  The function in the order of its text: the refresh of an outdated short name, the
  waits on the blocked timers, a filesystem entry that could not be read, the two move
  detectors, and the eight cases of presence. Each early stage yields \<open>Some r\<close> when
  the function returns \<open>r\<close> there and \<open>None\<close> when control goes on.
\<close>

definition syncItem_shortname :: "'w sync_state \<Rightarrow> syncRow \<Rightarrow> syncRow \<times> 'w sync_state" where
  "syncItem_shortname st row =
     (case syncNode row of
        None \<Rightarrow> (row, st)
      | Some sn \<Rightarrow>
         (case fsNode row of
            None \<Rightarrow> (row, st)
          | Some fsn \<Rightarrow>
             (case fs_shortname fsn of
                None \<Rightarrow> (row, st)
              | Some shortname \<Rightarrow>
                  if ln_slocalname (localnodes st sn) \<noteq> Some shortname
                  then (row\<lparr>fsNode := Some (fsn\<lparr>fs_shortname := None\<rparr>)\<rparr>,
                        setnameparent sn (ln_parent (localnodes st sn)) None (Some shortname) False st)
                  else (row, st))))"

definition syncItem_blocked ::
  "'w sync_state \<Rightarrow> syncRow \<Rightarrow> syncRow \<Rightarrow> fault + (bool option \<times> 'w sync_state)" where
  "syncItem_blocked st row parentRow =
     (case syncNode row of
        None \<Rightarrow> Inr (None, st)
      | Some sn \<Rightarrow>
          thenE
            (if level (ln_useBlocked (localnodes st sn)) \<ge> level SYNCTREE_ACTION_HERE_ONLY
             then (case ln_blockedTimer (localnodes st sn) of
                     None \<Rightarrow> Inl NullPointerDereference
                   | Some armed \<Rightarrow> Inr (\<not> armed))
             else Inr False)
            (\<lambda>waiting.
               if waiting then Inr (Some False, st)
               else if level (ln_scanBlocked (localnodes st sn)) \<ge> level SYNCTREE_ACTION_HERE_ONLY
               then (case ln_blockedTimer (localnodes st sn) of
                       None \<Rightarrow> Inl NullPointerDereference
                     | Some armed \<Rightarrow>
                         if armed
                         then (case syncNode parentRow of
                                 None \<Rightarrow> Inl NullPointerDereference
                               | Some psn \<Rightarrow>
                                   Inr (Some False, emit (LocalNode_setFutureScan psn True False) st))
                         else Inr (Some False, st))
               else if level (ln_useBlocked (localnodes st sn)) \<ge> level SYNCTREE_DESCENDANT_FLAGGED
                       \<or> level (ln_scanBlocked (localnodes st sn)) \<ge> level SYNCTREE_DESCENDANT_FLAGGED
               then Inr (None, update_localnode sn
                                 (\<lambda>ln. ln\<lparr>ln_scanBlocked := SYNCTREE_RESOLVED, ln_blockedTimer := None\<rparr>) st)
               else Inr (None, st)))"

definition syncItem_fsblocked ::
  "'w env \<Rightarrow> 'w sync_state \<Rightarrow> syncRow \<Rightarrow> syncRow \<Rightarrow> LocalPath
     \<Rightarrow> fault + (bool option \<times> syncRow \<times> 'w sync_state)" where
  "syncItem_fsblocked e st row parentRow fullPath =
     (case fsNode row of
        None \<Rightarrow> Inr (None, row, st)
      | Some fsn \<Rightarrow>
          if fs_type fsn = TYPE_UNKNOWN \<or> fs_isBlocked fsn then
            thenE
              (case syncNode row of
                 None \<Rightarrow> resolve_makeSyncNode_fromFS e st row parentRow fullPath
               | Some sn \<Rightarrow> Inr (False, row, st))
              (\<lambda>(made, row, st).
                 case syncNode row of
                   None \<Rightarrow> Inl NullPointerDereference
                 | Some sn \<Rightarrow> Inr (Some False, row, emit (LocalNode_setScanBlocked sn) st))
          else Inr (None, row, st))"

text \<open>The conditions under which the two move detectors are called.\<close>

definition calls_checkLocalPath :: "'w sync_state \<Rightarrow> syncRow \<Rightarrow> bool" where
  "calls_checkLocalPath st row =
     (case fsNode row of
        None \<Rightarrow> False
      | Some fsn \<Rightarrow>
         (case syncNode row of
            None \<Rightarrow> True
          | Some sn \<Rightarrow> ln_fsid (localnodes st sn) \<noteq> UNDEF
                        \<and> ln_fsid (localnodes st sn) \<noteq> fs_fsid fsn))"

definition calls_checkCloudPath :: "'w sync_state \<Rightarrow> syncRow \<Rightarrow> bool" where
  "calls_checkCloudPath st row =
     (case cloudNode row of
        None \<Rightarrow> False
      | Some c \<Rightarrow>
         (case syncNode row of
            None \<Rightarrow> True
          | Some sn \<Rightarrow> ln_syncedCloudNodeHandle (localnodes st sn) \<noteq> UNDEF
                        \<and> ln_syncedCloudNodeHandle (localnodes st sn) \<noteq> c))"

text \<open>
  The block of the synced case that sets fsid and node handle: the two assignments,
  the refresh of the pointers between LocalNode and cloud node, and
  \<^verbatim>\<open>statecacheadd\<close>.
\<close>

definition syncItem_set_synced :: "nat \<Rightarrow> handle \<Rightarrow> handle \<Rightarrow> 'w sync_state \<Rightarrow> 'w sync_state" where
  "syncItem_set_synced sn fsid c st =
     (let st = update_localnode sn (\<lambda>ln. ln\<lparr>ln_fsid := fsid, ln_syncedCloudNodeHandle := c\<rparr>) st;
          node = nodebyhandle st c;
          st = update_localnode sn (\<lambda>ln. ln\<lparr>ln_node := node\<rparr>) st;
          st = (case node of
                  None \<Rightarrow> st
                | Some n \<Rightarrow>
                    st\<lparr>cloudnodes := (cloudnodes st)(n := (cloudnodes st n)\<lparr>n_localnode := Some sn\<rparr>)\<rparr>)
      in statecacheadd sn st)"

text \<open>The eight cases of present and absent for the row.\<close>

definition syncItem_cases ::
  "'w env \<Rightarrow> 'w sync_state \<Rightarrow> syncRow \<Rightarrow> syncRow \<Rightarrow> LocalPath
     \<Rightarrow> fault + (bool \<times> syncRow \<times> 'w sync_state)" where
  "syncItem_cases e st row parentRow fullPath =
     (case syncNode row of
        Some sn \<Rightarrow>
         (case fsNode row of
            Some fsn \<Rightarrow>
             (case cloudNode row of
                Some c \<Rightarrow>
                  (let cloudEqual = syncEqual_cloud (cloudnodes st c) (localnodes st sn);
                       fsEqual = syncEqual_fs fsn (localnodes st sn)
                   in if cloudEqual \<and> fsEqual then
                        (if ln_fsid (localnodes st sn) \<noteq> fs_fsid fsn
                            \<or> ln_syncedCloudNodeHandle (localnodes st sn) \<noteq> c
                         then Inr (True, row, syncItem_set_synced sn (fs_fsid fsn) c st)
                         else Inr (True, row, st))
                      else if cloudEqual then resolve_upsync e st row parentRow fullPath
                      else if fsEqual then resolve_downsync e st row parentRow fullPath True
                      else resolve_userIntervention e st row parentRow fullPath)
              | None \<Rightarrow>
                  if ln_syncedCloudNodeHandle (localnodes st sn) = UNDEF
                  then resolve_upsync e st row parentRow fullPath
                  else resolve_cloudNodeGone e st row parentRow fullPath)
          | None \<Rightarrow>
             (case cloudNode row of
                Some c \<Rightarrow>
                  if ln_fsid (localnodes st sn) \<noteq> UNDEF
                  then resolve_fsNodeGone e st row parentRow fullPath
                  else resolve_downsync e st row parentRow fullPath False
              | None \<Rightarrow> resolve_delSyncNode e st row parentRow fullPath))
      | None \<Rightarrow>
         (case fsNode row of
            Some fsn \<Rightarrow>
             (case cloudNode row of
                Some c \<Rightarrow>
                  if fs_type fsn \<noteq> n_type (cloudnodes st c)
                  then resolve_userIntervention e st row parentRow fullPath
                  else if fs_type fsn \<noteq> FILENODE
                          \<or> fingerprint_eq (fs_fingerprint fsn) (n_fingerprint (cloudnodes st c))
                  then resolve_makeSyncNode_fromFS e st row parentRow fullPath
                  else resolve_pickWinner e st row parentRow fullPath
              | None \<Rightarrow> resolve_makeSyncNode_fromFS e st row parentRow fullPath)
          | None \<Rightarrow>
             (case cloudNode row of
                Some c \<Rightarrow> resolve_makeSyncNode_fromCloud e st row parentRow fullPath
              | None \<Rightarrow> Inr (False, row, st))))"

definition syncItem ::
  "'w env \<Rightarrow> 'w sync_state \<Rightarrow> syncRow \<Rightarrow> syncRow \<Rightarrow> LocalPath
     \<Rightarrow> fault + (bool \<times> syncRow \<times> 'w sync_state)" where
  "syncItem e st row parentRow fullPath =
     (case syncItem_shortname st row of
        (row, st) \<Rightarrow>
          thenE (syncItem_blocked st row parentRow)
            (\<lambda>(returned, st).
               case returned of
                 Some r \<Rightarrow> Inr (r, row, st)
               | None \<Rightarrow>
                   thenE (syncItem_fsblocked e st row parentRow fullPath)
                     (\<lambda>(returned, row, st).
                        case returned of
                          Some r \<Rightarrow> Inr (r, row, st)
                        | None \<Rightarrow>
                            thenE (if calls_checkLocalPath st row
                                   then checkLocalPathForMovesRenames e st row parentRow fullPath
                                   else Inr (None, row, st))
                              (\<lambda>(returned, row, st).
                                 case returned of
                                   Some r \<Rightarrow> Inr (r, row, st)
                                 | None \<Rightarrow>
                                     thenE (if calls_checkCloudPath st row
                                            then checkCloudPathForMovesRenames e st row parentRow fullPath
                                            else Inr (None, row, st))
                                       (\<lambda>(returned, row, st).
                                          case returned of
                                            Some r \<Rightarrow> Inr (r, row, st)
                                          | None \<Rightarrow> syncItem_cases e st row parentRow fullPath)))))"


section \<open>A small configuration for the examples\<close>

text \<open>
  Sync 1 is rooted at \<open>root\<close> (LocalNode 1, cloud node 500) and holds the synced file
  \<open>root/a.txt\<close> (LocalNode 2, fsid 101, cloud node 501). Sync 2, on the same
  filesystem, holds the file \<open>other/b.txt\<close> (LocalNode 3, fsid 102) of the same size
  and mtime. The row of \<open>a.txt\<close> has all three sides present and equal.
\<close>

definition ex_fp :: FileFingerprint where
  "ex_fp = \<lparr>fp_size = 10, fp_mtime = 1000, fp_crc = [1, 2, 3, 4], fp_isvalid = True\<rparr>"

definition ex_root :: LocalNode where
  "ex_root = LocalNode_new\<lparr>ln_type := FOLDERNODE, ln_fsid := 100, ln_syncedCloudNodeHandle := 500,
                ln_sync := 1, ln_name := ''root'', ln_localpath := [''root''], ln_node := Some 500\<rparr>"

definition ex_file :: LocalNode where
  "ex_file = LocalNode_new\<lparr>ln_type := FILENODE, ln_fsid := 101, ln_syncedCloudNodeHandle := 501,
                ln_fingerprint := ex_fp, ln_sync := 1, ln_parent := Some 1, ln_name := ''a.txt'',
                ln_localpath := [''root'', ''a.txt''], ln_node := Some 501, ln_dbid := 7\<rparr>"

definition ex_other :: LocalNode where
  "ex_other = LocalNode_new\<lparr>ln_type := FILENODE, ln_fsid := 102, ln_syncedCloudNodeHandle := 502,
                ln_fingerprint := ex_fp, ln_sync := 2, ln_parent := Some 4, ln_name := ''b.txt'',
                ln_localpath := [''other'', ''b.txt''], ln_dbid := 8\<rparr>"

definition ex_cloud_root :: Node where
  "ex_cloud_root = \<lparr>n_type = FOLDERNODE, n_fingerprint = FileFingerprint_init, n_parent = None,
                     n_localnode = Some 1, n_syncget = False\<rparr>"

definition ex_cloud_file :: Node where
  "ex_cloud_file = \<lparr>n_type = FILENODE, n_fingerprint = ex_fp, n_parent = Some 500,
                     n_localnode = None, n_syncget = False\<rparr>"

definition ex_tm :: tm where
  "ex_tm = \<lparr>tm_year = 126, tm_mon = 9, tm_mday = 30, tm_hour = 12, tm_min = 0, tm_sec = 5\<rparr>"

text \<open>A filesystem on which every directory can be made and every rename succeeds.\<close>

definition ops_plain :: "unit fs_ops" where
  "ops_plain =
     \<lparr>mkdirlocal = (\<lambda>fsa p hidden. (True, fsa\<lparr>target_exists := False, transient_error := False\<rparr>)),
      renamelocal = (\<lambda>fsa src dst ov. (True, fsa)),
      fsShortname = (\<lambda>fsa p. None),
      fopen = (\<lambda>fsa p. OpenFailed False)\<rparr>"

definition ex_env :: "unit env" where
  "ex_env = \<lparr>env_ops = ops_plain, env_now = 2000, env_ptm = ex_tm\<rparr>"

definition ex_state :: "unit sync_state" where
  "ex_state =
     \<lparr>localnodes = (\<lambda>l. if l = 1 then ex_root else if l = 2 then ex_file
                          else if l = 3 then ex_other else LocalNode_new),
      next_localnode = 10,
      localnodeByFsid = [(100, 1), (101, 2), (102, 3)],
      cloudnodes = (\<lambda>h. if h = 500 then ex_cloud_root else ex_cloud_file),
      known = {500, 501},
      statecurrent = True, fsStateCurrent = True, fullscan = False, canceled = False,
      inshare = False, syncactivity = False, insertq = {}, deleteq = {},
      mFileChangingCheckState = Map.empty, this_sync = 1, fsfingerprint = (\<lambda>sy. 77),
      win32 = True, driveLetter = (\<lambda>sy. CHR ''C''),
      localdebris = [''root'', ''.debris''], fsaccess = fsa_init, trace = [], stall = []\<rparr>"

definition ex_fsnode :: FSNode where
  "ex_fsnode = \<lparr>fs_localname = [''a.txt''], fs_name = ''a.txt'', fs_fsid = 101, fs_type = FILENODE,
                 fs_size = 10, fs_mtime = 1000, fs_fingerprint = ex_fp, fs_isSymlink = False,
                 fs_isBlocked = False, fs_shortname = None\<rparr>"

definition ex_row :: syncRow where
  "ex_row = \<lparr>cloudNode = Some 501, syncNode = Some 2, fsNode = Some ex_fsnode\<rparr>"

definition ex_parentRow :: syncRow where
  "ex_parentRow = \<lparr>cloudNode = Some 500, syncNode = Some 1, fsNode = None\<rparr>"


text \<open>
  Variations of the configuration: the LocalNode of \<open>a.txt\<close> waiting on its
  use-blocked timer; cloud and filesystem both changed since the synced state; the file
  replaced by an equal one with a new fsid; the cloud node gone while the local scan is
  unfinished; a symlink that has no LocalNode; a new file \<open>c.txt\<close> that reuses the
  fsid of \<open>other/b.txt\<close> with another size; and \<open>b.txt\<close> moved in from the other
  sync.
\<close>

definition ex_state_blocked :: "unit sync_state" where
  "ex_state_blocked = ex_state\<lparr>localnodes := (localnodes ex_state)
       (2 := ex_file\<lparr>ln_useBlocked := SYNCTREE_ACTION_HERE_ONLY, ln_blockedTimer := Some False\<rparr>)\<rparr>"

definition ex_state_both_changed :: "unit sync_state" where
  "ex_state_both_changed = ex_state\<lparr>cloudnodes := (cloudnodes ex_state)
       (501 := ex_cloud_file\<lparr>n_fingerprint := ex_fp\<lparr>fp_size := 11\<rparr>\<rparr>)\<rparr>"

definition ex_row_changed :: syncRow where
  "ex_row_changed = ex_row\<lparr>fsNode := Some (ex_fsnode\<lparr>fs_size := 12,
       fs_fingerprint := ex_fp\<lparr>fp_size := 12\<rparr>\<rparr>)\<rparr>"

definition ex_row_new_inode :: syncRow where
  "ex_row_new_inode = ex_row\<lparr>fsNode := Some (ex_fsnode\<lparr>fs_fsid := 111\<rparr>)\<rparr>"

definition ex_state_cloud_gone :: "unit sync_state" where
  "ex_state_cloud_gone = ex_state\<lparr>fsStateCurrent := False, known := {500}\<rparr>"

definition ex_row_cloud_gone :: syncRow where
  "ex_row_cloud_gone = \<lparr>cloudNode = None, syncNode = Some 2, fsNode = Some ex_fsnode\<rparr>"

definition ex_row_symlink :: syncRow where
  "ex_row_symlink = \<lparr>cloudNode = None, syncNode = None,
     fsNode = Some (ex_fsnode\<lparr>fs_localname := [''link''], fs_name := ''link'', fs_fsid := 150,
                     fs_isSymlink := True\<rparr>)\<rparr>"




section \<open>Serialization of a \<^verbatim>\<open>File\<close> (file.cpp)\<close>

text \<open>
  A \<^verbatim>\<open>std::string\<close> is a list of bytes. Integers are written as their object
  representation, least significant byte first, and read back the same way
  (\<^verbatim>\<open>MemAccess::get\<close>).
\<close>

type_synonym byte = "8 word"

fun le_bytes :: "nat \<Rightarrow> nat \<Rightarrow> byte list" where
  "le_bytes 0 n = []"
| "le_bytes (Suc k) n = of_nat (n mod 256) # le_bytes k (n div 256)"

fun le_nat :: "byte list \<Rightarrow> nat" where
  "le_nat [] = 0"
| "le_nat (b # bs) = unat b + 256 * le_nat bs"

definition FILENODEKEYLENGTH :: nat where
  "FILENODEKEYLENGTH = 32"

text \<open>
  The \<^verbatim>\<open>File\<close> members that the constructor and the serialization touch, each
  under its name with \<open>f_\<close> before it. The base-class fingerprint is
  \<open>f_fingerprint\<close>; \<open>f_localname\<close> is the platform encoding of the local path;
  \<open>f_filekey\<close> is the array of \<^verbatim>\<open>FILENODEKEYLENGTH\<close> bytes; \<open>f_chatauth\<close> is the C
  string behind the pointer, if any.
\<close>

record File =
  f_fingerprint :: FileFingerprint
  f_name :: "byte list"
  f_localname :: "byte list"
  f_targetuser :: "byte list"
  f_privauth :: "byte list"
  f_pubauth :: "byte list"
  f_h :: handle
  f_filekey :: "byte list"
  f_hprivate :: bool
  f_hforeign :: bool
  f_syncxfer :: bool
  f_temporaryfile :: bool
  f_fixNameConflicts :: bool
  f_tag :: int
  f_chatauth :: "byte list option"

text \<open>\<^verbatim>\<open>File::File()\<close>; strings start empty, the key zeroed.\<close>

definition File_new :: File where
  "File_new =
     \<lparr>f_fingerprint = FileFingerprint_init, f_name = [], f_localname = [], f_targetuser = [],
      f_privauth = [], f_pubauth = [], f_h = UNDEF, f_filekey = replicate FILENODEKEYLENGTH 0,
      f_hprivate = True, f_hforeign = False, f_syncxfer = False, f_temporaryfile = False,
      f_fixNameConflicts = True, f_tag = 0, f_chatauth = None\<rparr>"

text \<open>
  A string with its length in an \<^verbatim>\<open>unsigned short\<close> before it: the length is cut to
  16 bits, and that many bytes of the string follow.
\<close>

definition put_string :: "byte list \<Rightarrow> byte list" where
  "put_string str = (let ll = length str mod 65536 in le_bytes 2 ll @ take ll str)"

definition put_bool :: "bool \<Rightarrow> byte list" where
  "put_bool flag = [if flag then 1 else 0]"

text \<open>
  \<^verbatim>\<open>File::serialize\<close>, appending to \<open>d\<close>. \<open>type\<close> is \<^verbatim>\<open>transfer->type\<close>;
  \<open>fp_serialize\<close> is \<^verbatim>\<open>FileFingerprint::serialize\<close>, which is outside the sources: it
  yields the bytes it appends, or nothing when it fails.
\<close>

definition serialize ::
  "(FileFingerprint \<Rightarrow> byte list option) \<Rightarrow> byte \<Rightarrow> File \<Rightarrow> byte list \<Rightarrow> byte list option" where
  "serialize fp_serialize type f d =
     (let d = d @ [type]
      in case fp_serialize (f_fingerprint f) of
           None \<Rightarrow> None
         | Some fpbytes \<Rightarrow>
             (let d = d @ fpbytes;
                  d = d @ put_string (f_name f);
                  d = d @ put_string (f_localname f);
                  d = d @ put_string (f_targetuser f);
                  d = d @ put_string (f_privauth f);
                  d = d @ put_string (f_pubauth f);
                  d = d @ le_bytes 8 (unat (f_h f));
                  d = d @ f_filekey f;
                  d = d @ put_bool (f_hprivate f);
                  d = d @ put_bool (f_hforeign f);
                  d = d @ put_bool (f_syncxfer f);
                  d = d @ put_bool (f_temporaryfile f);
                  hasChatAuth = (case f_chatauth f of None \<Rightarrow> False | Some ca \<Rightarrow> ca \<noteq> []);
                  d = d @ put_bool hasChatAuth;
                  d = d @ replicate 8 0;
                  d = (if hasChatAuth then d @ put_string (the (f_chatauth f)) else d)
              in Some d))"

text \<open>
  Reading goes along \<open>r\<close>, the bytes from \<^verbatim>\<open>ptr\<close> to \<^verbatim>\<open>end\<close>. \<open>get_string\<close> reads a
  length and the string after it, with the check that the string and \<open>need\<close> further
  bytes are there.
\<close>

definition get_string :: "nat \<Rightarrow> byte list \<Rightarrow> (byte list \<times> byte list) option" where
  "get_string need r =
     (let len = le_nat (take 2 r); r = drop 2 r
      in if len + need > length r then None else Some (take len r, drop len r))"

definition get_bool :: "byte list \<Rightarrow> bool" where
  "get_bool r = (hd r \<noteq> 0)"

text \<open>
  \<^verbatim>\<open>File::unserialize\<close>: the file and what is left of \<open>d\<close>, or nothing.
  \<open>fp_unserialize\<close> is \<^verbatim>\<open>FileFingerprint::unserialize\<close>, outside the sources: it
  yields the fingerprint and what it leaves of the string, or nothing.
\<close>

definition unserialize ::
  "(byte list \<Rightarrow> (FileFingerprint \<times> byte list) option) \<Rightarrow> byte list \<Rightarrow> (File \<times> byte list) option" where
  "unserialize fp_unserialize d =
     (if d = [] then None
      else case fp_unserialize (tl d) of
        None \<Rightarrow> None
      | Some (fp, r) \<Rightarrow>
         if 2 > length r then None
         else case get_string 2 r of None \<Rightarrow> None | Some (fname, r) \<Rightarrow>
              case get_string 2 r of None \<Rightarrow> None | Some (flocalname, r) \<Rightarrow>
              case get_string 2 r of None \<Rightarrow> None | Some (ftargetuser, r) \<Rightarrow>
              case get_string 2 r of None \<Rightarrow> None | Some (fprivauth, r) \<Rightarrow>
              case get_string (8 + FILENODEKEYLENGTH + 1 + 1 + 1 + 10) r of
                None \<Rightarrow> None
              | Some (fpubauth, r) \<Rightarrow>
                 (let file = File_new\<lparr>f_fingerprint := fp, f_name := fname, f_localname := flocalname,
                                f_targetuser := ftargetuser, f_privauth := fprivauth, f_pubauth := fpubauth\<rparr>;
                      file = file\<lparr>f_h := of_nat (le_nat (take 8 r))\<rparr>; r = drop 8 r;
                      file = file\<lparr>f_filekey := take FILENODEKEYLENGTH r\<rparr>; r = drop FILENODEKEYLENGTH r;
                      file = file\<lparr>f_hprivate := get_bool r\<rparr>; r = drop 1 r;
                      file = file\<lparr>f_hforeign := get_bool r\<rparr>; r = drop 1 r;
                      file = file\<lparr>f_syncxfer := get_bool r\<rparr>; r = drop 1 r;
                      file = file\<lparr>f_temporaryfile := get_bool r\<rparr>; r = drop 1 r;
                      hasChatAuth = get_bool r; r = drop 1 r
                  in if take 8 r \<noteq> replicate 8 0 then None
                     else
                       (let r = drop 8 r
                        in if hasChatAuth then
                             (if 2 \<le> length r then
                                (let chatauthlen = le_nat (take 2 r); r = drop 2 r
                                 in if chatauthlen = 0 \<or> chatauthlen > length r then None
                                    else Some (file\<lparr>f_chatauth :=
                                                 Some (takeWhile (\<lambda>b. b \<noteq> 0) (take chatauthlen r))\<rparr>,
                                               drop chatauthlen r))
                              else None)
                           else Some (file, r))))"

text \<open>
  The chat-auth string of a file; no pointer and the empty string are the same string.
  A fingerprint codec for the examples: the size alone, in eight bytes.
\<close>

definition chatauth_string :: "File \<Rightarrow> byte list" where
  "chatauth_string f = (case f_chatauth f of None \<Rightarrow> [] | Some ca \<Rightarrow> ca)"

definition ex_fp_serialize :: "FileFingerprint \<Rightarrow> byte list option" where
  "ex_fp_serialize fp =
     (if fp = FileFingerprint_init\<lparr>fp_size := int (nat (fp_size fp) mod 2 ^ 64)\<rparr>
      then Some (le_bytes 8 (nat (fp_size fp))) else None)"

definition ex_fp_unserialize :: "byte list \<Rightarrow> (FileFingerprint \<times> byte list) option" where
  "ex_fp_unserialize d =
     (if length d < 8 then None
      else Some (FileFingerprint_init\<lparr>fp_size := int (le_nat (take 8 d))\<rparr>, drop 8 d))"

definition ex_File :: File where
  "ex_File = File_new\<lparr>f_fingerprint := FileFingerprint_init\<lparr>fp_size := 10\<rparr>,
                f_name := [97, 46, 116, 120, 116], f_localname := [47, 114, 47, 97],
                f_h := 501, f_hforeign := True, f_chatauth := Some [99, 97]\<rparr>"


section \<open>Notions used in the properties\<close>

text \<open>
  The calls that change something outside the LocalNode tree's bookkeeping: a
  filesystem operation, a transfer, a cloud command, the deletion of a LocalNode, or a
  move (a notified local move, or \<^verbatim>\<open>setnameparent\<close> with a new path).
\<close>

fun side_command :: "action \<Rightarrow> bool" where
  "side_command (Fs_mkdirlocal p h) = True"
| "side_command (Fs_renamelocal src dst ov) = True"
| "side_command (Client_startxfer_PUT l) = True"
| "side_command (Client_startxfer_GET h p) = True"
| "side_command (Client_putnodes h n) = True"
| "side_command (Client_movetosyncdebris h) = True"
| "side_command Client_execsyncdeletions = True"
| "side_command (App_syncupdate_local_move l p) = True"
| "side_command (LocalNode_delete l) = True"
| "side_command (LocalNode_setnameparent l par newpath sh cl) = (newpath \<noteq> None)"
| "side_command a = False"

text \<open>
  Neither move detector finds anything for the row. Where
  \<^verbatim>\<open>checkLocalPathForMovesRenames\<close> is called it looks the fsid up in two places: for
  a row whose LocalNode and filesystem entry are both files, and for a row without
  LocalNode (whose entry must not be a symlink); there no LocalNode is found. Where
  \<^verbatim>\<open>checkCloudPathForMovesRenames\<close> is called, the cloud node has no LocalNode with a
  parent.
\<close>

definition no_move_detected :: "'w sync_state \<Rightarrow> syncRow \<Rightarrow> bool" where
  "no_move_detected st row \<longleftrightarrow>
     (calls_checkLocalPath st row \<longrightarrow>
        (case fsNode row of None \<Rightarrow> True
         | Some fsn \<Rightarrow>
            (case syncNode row of
               None \<Rightarrow> \<not> fs_isSymlink fsn \<and> findLocalNodeByFsid st fsn (this_sync st) = None
             | Some sn \<Rightarrow>
                 ln_type (localnodes st sn) = fs_type fsn \<and> ln_type (localnodes st sn) = FILENODE
                   \<longrightarrow> findLocalNodeByFsid st fsn (this_sync st) = None)))
     \<and> (calls_checkCloudPath st row \<longrightarrow>
        (case cloudNode row of None \<Rightarrow> True
         | Some c \<Rightarrow> (case n_localnode (cloudnodes st c) of None \<Rightarrow> True
                      | Some l \<Rightarrow> ln_parent (localnodes st l) = None)))"

text \<open>
  The row gets as far as the eight cases: the LocalNode is not waiting on a blocked
  timer, the filesystem entry could be read, and no move is detected.
\<close>

definition reaches_comparison :: "'w sync_state \<Rightarrow> syncRow \<Rightarrow> bool" where
  "reaches_comparison st row \<longleftrightarrow>
     (case syncNode row of None \<Rightarrow> True
      | Some sn \<Rightarrow>
          (level (ln_useBlocked (localnodes st sn)) \<ge> level SYNCTREE_ACTION_HERE_ONLY
             \<longrightarrow> ln_blockedTimer (localnodes st sn) = Some True)
          \<and> level (ln_scanBlocked (localnodes st sn)) < level SYNCTREE_ACTION_HERE_ONLY)
     \<and> (case fsNode row of None \<Rightarrow> True
        | Some fsn \<Rightarrow> fs_type fsn \<noteq> TYPE_UNKNOWN \<and> \<not> fs_isBlocked fsn)
     \<and> no_move_detected st row"

text \<open>
  Two LocalNodes agree on what the comparison of a row reads; two states differ only
  in LocalNode fields outside of that and in calls that are not \<open>side_command\<close>s.
\<close>

definition core_eq :: "LocalNode \<Rightarrow> LocalNode \<Rightarrow> bool" where
  "core_eq a b \<longleftrightarrow> ln_type a = ln_type b \<and> ln_fsid a = ln_fsid b
     \<and> ln_syncedCloudNodeHandle a = ln_syncedCloudNodeHandle b
     \<and> ln_fingerprint a = ln_fingerprint b \<and> ln_sync a = ln_sync b
     \<and> ln_parent a = ln_parent b \<and> ln_dbid a = ln_dbid b"

definition quiet_step :: "'w sync_state \<Rightarrow> 'w sync_state \<Rightarrow> bool" where
  "quiet_step st st' \<longleftrightarrow>
     (\<exists>L new. st' = st\<lparr>localnodes := L, trace := trace st @ new\<rparr>
        \<and> (\<forall>l. core_eq (L l) (localnodes st l)) \<and> (\<forall>a\<in>set new. \<not> side_command a))"

text \<open>
  The names that the local debris is spoken of with: the day folder, named by the
  date as \<^verbatim>\<open>YYYY-MM-DD\<close>, and the folder with the numeric suffix \<open>n\<close>, named by date,
  time of day and \<open>n\<close> in two digits. \<open>debris_attempts\<close> lists, round by round, the
  calls of a move to the debris that goes through every round: the rename into the day
  folder with nothing created before it; the creation of the debris folder and of the
  day folder and the rename again; the day folder and the rename once more; and then,
  for each suffix from 0 to 99, the creation of the suffixed folder and the rename into
  it, the debris folder being created again before the suffixes above 95. Every rename
  is of the victim \<open>lp\<close>, keeps its leaf name, and does not replace an existing
  target.
\<close>

definition date_name :: "tm \<Rightarrow> string" where
  "date_name t =
     printf_0d 4 (tm_year t + 1900) @ ''-'' @ printf_0d 2 (tm_mon t + 1) @ ''-''
       @ printf_0d 2 (tm_mday t)"

definition stamp_name :: "tm \<Rightarrow> nat \<Rightarrow> string" where
  "stamp_name t n =
     date_name t @ '' '' @ printf_0d 2 (tm_hour t) @ ''.'' @ printf_0d 2 (tm_min t) @ ''.''
       @ printf_0d 2 (tm_sec t) @ ''.'' @ printf_0d 2 n"

definition debris_attempts :: "tm \<Rightarrow> LocalPath \<Rightarrow> LocalPath \<Rightarrow> action list list" where
  "debris_attempts t debris lp =
     [[Fs_renamelocal lp (debris @ [date_name t] @ leafname lp) False],
      [Fs_mkdirlocal debris True, Fs_mkdirlocal (debris @ [date_name t]) False,
       Fs_renamelocal lp (debris @ [date_name t] @ leafname lp) False],
      [Fs_mkdirlocal (debris @ [date_name t]) False,
       Fs_renamelocal lp (debris @ [date_name t] @ leafname lp) False]]
     @ map (\<lambda>n. (if n > 95 then [Fs_mkdirlocal debris True] else [])
                  @ [Fs_mkdirlocal (debris @ [stamp_name t n]) False,
                     Fs_renamelocal lp (debris @ [stamp_name t n] @ leafname lp) False])
         [0..<100]"

text \<open>
  Every rename fails because its target exists already, and not transiently.
\<close>

definition rename_fails_target_exists :: "'w fs_ops \<Rightarrow> bool" where
  "rename_fails_target_exists fo \<longleftrightarrow>
     (\<forall>fsa src dst ov. \<not> fst (renamelocal fo fsa src dst ov)
        \<and> target_exists (snd (renamelocal fo fsa src dst ov))
        \<and> \<not> transient_error (snd (renamelocal fo fsa src dst ov)))"

text \<open>
  A LocalNode is a match for a filesystem entry with the same fsid, as
  \<^verbatim>\<open>findLocalNodeByFsid\<close> decides it: same type, owned by another sync whose
  filesystem fingerprint is defined and equal to this sync's, and for files the same
  size and mtime.
\<close>

definition fsid_match :: "'w sync_state \<Rightarrow> FSNode \<Rightarrow> nat \<Rightarrow> nat \<Rightarrow> bool" where
  "fsid_match st fsn filesystemSync l \<longleftrightarrow>
     ln_type (localnodes st l) = fs_type fsn
     \<and> ln_sync (localnodes st l) \<noteq> filesystemSync
     \<and> fsfingerprint st (ln_sync (localnodes st l)) \<noteq> 0
     \<and> fsfingerprint st filesystemSync \<noteq> 0
     \<and> fsfingerprint st (ln_sync (localnodes st l)) = fsfingerprint st filesystemSync
     \<and> (win32 st \<longrightarrow> driveLetter st (ln_sync (localnodes st l)) = driveLetter st filesystemSync)
     \<and> (fs_type fsn = FILENODE \<longrightarrow>
          fs_mtime fsn = fp_mtime (ln_fingerprint (localnodes st l))
          \<and> fs_size fsn = fp_size (ln_fingerprint (localnodes st l)))"


section \<open>Properties\<close>

subsection \<open>Transfer retry policy\<close>

lemma File_failed_EKEY: "\<not> File_failed API_EKEY failcount syncxfer"
  by (simp add: File_failed_def)

lemma File_failed_quota:
  "File_failed API_EOVERQUOTA failcount syncxfer"
  "File_failed API_EGOINGOVERQUOTA failcount syncxfer"
  by (simp_all add: File_failed_def)

lemma File_failed_nonfatal:
  "File_failed (API_other c) failcount False \<longleftrightarrow> failcount < 16"
  by (simp add: File_failed_def)

lemma File_failed_io:
  "File_failed API_EREAD failcount False \<longleftrightarrow> failcount \<le> 6"
  "File_failed API_EWRITE failcount False \<longleftrightarrow> failcount \<le> 6"
  by (auto simp: File_failed_def)

lemma File_failed_io_sync:
  "File_failed API_EREAD failcount True \<longleftrightarrow> failcount \<le> 8"
  "File_failed API_EWRITE failcount True \<longleftrightarrow> failcount \<le> 8"
  by (auto simp: File_failed_def)

text \<open>
  C8. If the failure count holds the failures before the current one, a non-fatal
  error is retried 16 times, as the comment of \<^verbatim>\<open>File::failed\<close> says, but an I/O
  error 7 times and not 6, and an I/O error of a sync transfer 9 times and not 8: it is
  still retried at the counts 6 and 8. If the count includes the current failure, the
  numbers are 15, 6 and 8. Under neither reading are they 16, 6 and 8.
\<close>

theorem File_failed_io_off_by_one:
  "File_failed API_EREAD 6 False \<and> File_failed API_EWRITE 6 False \<and> File_failed API_EREAD 8 True
   \<and> retries_granted 0 100 (API_other 0) False = 16
   \<and> retries_granted 0 100 API_EREAD False = 7
   \<and> retries_granted 0 100 API_EWRITE False = 7
   \<and> retries_granted 0 100 API_EREAD True = 9
   \<and> retries_granted 1 100 (API_other 0) False = 15
   \<and> retries_granted 1 100 API_EREAD False = 6
   \<and> retries_granted 1 100 API_EREAD True = 8"
  by (simp add: retries_granted_def File_failed_def upt_rec [of _ "numeral _"]
      upt_rec [of "Suc _" "numeral _"])


subsection \<open>Anti-flap check\<close>

lemma checkIfFileIsChanging_never_reports:
  "fst (checkIfFileIsChanging m currentsecs prevfa fullPath) = False"
  by (simp add: checkIfFileIsChanging_def NULL_as_bool_def Let_def split: prod.splits)

text \<open>
  C5. A file at the origin of a suspected move that is growing: first seen at second
  1000 with 10 bytes, written at that very second; seen again at second 1010 with 20
  bytes, again just written. Both times the size differs from the recorded one and the
  entry is kept for the next check, yet the function returns \<^verbatim>\<open>false\<close>: the branch
  that detects the update leaves through \<^verbatim>\<open>return NULL;\<close>.
\<close>

theorem checkIfFileIsChanging_growing_file:
  "checkIfFileIsChanging Map.empty 1000
      (Opened \<lparr>fa_type = FILENODE, fa_size = 10, fa_mtime = 1000, fa_fsid = 7,
               fa_fsidvalid = True, fa_mIsSymLink = False\<rparr>) [''d'', ''a.txt'']
     = (False,
        [[''d'', ''a.txt''] \<mapsto>
           \<lparr>updatedfilesize = 10, updatedfilets = 1000, updatedfileinitialts = 1000\<rparr>],
        False)
   \<and> checkIfFileIsChanging
        [[''d'', ''a.txt''] \<mapsto>
           \<lparr>updatedfilesize = 10, updatedfilets = 1000, updatedfileinitialts = 1000\<rparr>]
        1010
        (Opened \<lparr>fa_type = FILENODE, fa_size = 20, fa_mtime = 1010, fa_fsid = 7,
                 fa_fsidvalid = True, fa_mIsSymLink = False\<rparr>) [''d'', ''a.txt'']
     = (False,
        [[''d'', ''a.txt''] \<mapsto>
           \<lparr>updatedfilesize = 20, updatedfilets = 1010, updatedfileinitialts = 1000\<rparr>],
        False)"
  by (simp add: checkIfFileIsChanging_def check_opened_def NULL_as_bool_def
      FileChangingState_init_def FILE_UPDATE_DELAY_DS_def FILE_UPDATE_MAX_DELAY_SECS_def)


subsection \<open>Scan service\<close>

lemma scan_cannot_open:
  "(\<exists>retry. sf_fopen fs (mTargetPath request) = OpenFailed retry) \<or> \<not> sf_dopen fs (mTargetPath request)
     \<Longrightarrow> scan fs request = request"
  by (auto simp: scan_def Let_def split: fopen_result.splits)

text \<open>
  C7, as stated, fails: the request for a directory that cannot be opened and the
  request for a directory without entries complete as the same value; no field tells
  them apart.
\<close>

theorem scan_unreadable_same_as_empty:
  "Worker_process fs_unreadable (ScanRequest_new True 3 [''root'', ''.debris''] False [''root'', ''d''])
     = Worker_process fs_emptydir (ScanRequest_new True 3 [''root'', ''.debris''] False [''root'', ''d''])"
  by (simp add: Worker_process_def scan_def ScanRequest_new_def fs_unreadable_def fs_emptydir_def
      isContainingPathOf_def appendWithSeparator_def)

text \<open>
  C7, amended. When the target of a fresh request cannot be opened (\<^verbatim>\<open>fopen\<close> or
  \<^verbatim>\<open>dopen\<close> fails), the request completes with the empty result list and is otherwise
  as it was constructed: complete, no results, and nothing that records the failure.
\<close>

theorem scan_cannot_open_completes_empty:
  assumes "(\<exists>retry. sf_fopen fs targetPath = OpenFailed retry) \<or> \<not> sf_dopen fs targetPath"
  shows "Worker_process fs (ScanRequest_new cookie target debris followsymlinks targetPath)
           = ((ScanRequest_new cookie target debris followsymlinks targetPath)\<lparr>mComplete := True\<rparr>,
              cookie)
         \<and> mResults (fst (Worker_process fs
              (ScanRequest_new cookie target debris followsymlinks targetPath))) = []"
proof -
  let ?r = "ScanRequest_new cookie target debris followsymlinks targetPath"
  have "mTargetPath ?r = targetPath"
    by (simp add: ScanRequest_new_def)
  with assms have "scan fs ?r = ?r"
    by (intro scan_cannot_open) simp
  then show ?thesis
    by (simp add: Worker_process_def ScanRequest_new_def)
qed

theorem scan_cannot_open_completes_empty_witness:
  "Worker_process fs_unreadable (ScanRequest_new True 3 [''root'', ''.debris''] False [''root'', ''d''])
     = ((ScanRequest_new True 3 [''root'', ''.debris''] False [''root'', ''d''])\<lparr>mComplete := True\<rparr>, True)
   \<and> mResults (fst (Worker_process fs_unreadable
        (ScanRequest_new True 3 [''root'', ''.debris''] False [''root'', ''d'']))) = []"
proof -
  have "(\<exists>retry. sf_fopen fs_unreadable [''root'', ''d''] = OpenFailed retry)
          \<or> \<not> sf_dopen fs_unreadable [''root'', ''d'']"
    by (simp add: fs_unreadable_def)
  then show ?thesis
    by (rule scan_cannot_open_completes_empty)
qed


subsection \<open>Unfolding the examples\<close>

lemmas ex_defs = ex_state_def ex_row_def ex_parentRow_def ex_fsnode_def ex_env_def ex_file_def
  ex_root_def ex_other_def ex_cloud_root_def ex_cloud_file_def ex_fp_def ex_tm_def ops_plain_def
  fsa_init_def LocalNode_new_def FileFingerprint_init_def

lemmas syncItem_defs = syncItem_def syncItem_shortname_def syncItem_blocked_def
  syncItem_fsblocked_def calls_checkLocalPath_def calls_checkCloudPath_def syncItem_cases_def
  thenE_def syncEqual_cloud_def syncEqual_fs_def fingerprint_eq_def update_localnode_def emit_def
  statecacheadd_def nodebyhandle_def UNDEF_def


subsection \<open>Local debris\<close>

declare movetolocaldebris_loop.simps [simp del]

lemma length_debris_attempts [simp]: "length (debris_attempts t ld lp) = 103"
  by (simp add: debris_attempts_def)

lemma debris_day_names:
  "i < 0 \<Longrightarrow> debris_day t i = date_name t"
  "0 \<le> i \<Longrightarrow> debris_day t i = stamp_name t (nat i)"
  by (simp_all add: debris_day_def date_name_def stamp_name_def)

lemma debris_attempts_nth:
  "debris_attempts t ld lp ! 0 = [Fs_renamelocal lp (ld @ [date_name t] @ leafname lp) False]"
  "debris_attempts t ld lp ! Suc 0 = [Fs_mkdirlocal ld True, Fs_mkdirlocal (ld @ [date_name t]) False,
       Fs_renamelocal lp (ld @ [date_name t] @ leafname lp) False]"
  "debris_attempts t ld lp ! 2 = [Fs_mkdirlocal (ld @ [date_name t]) False,
       Fs_renamelocal lp (ld @ [date_name t] @ leafname lp) False]"
  "n < 100 \<Longrightarrow> debris_attempts t ld lp ! (n + 3) =
      (if n > 95 then [Fs_mkdirlocal ld True] else [])
        @ [Fs_mkdirlocal (ld @ [stamp_name t n]) False,
           Fs_renamelocal lp (ld @ [stamp_name t n] @ leafname lp) False]"
proof -
  show "debris_attempts t ld lp ! 0 = [Fs_renamelocal lp (ld @ [date_name t] @ leafname lp) False]"
    by (simp add: debris_attempts_def)
  show "debris_attempts t ld lp ! Suc 0 = [Fs_mkdirlocal ld True, Fs_mkdirlocal (ld @ [date_name t]) False,
       Fs_renamelocal lp (ld @ [date_name t] @ leafname lp) False]"
    by (simp add: debris_attempts_def)
  show "debris_attempts t ld lp ! 2 = [Fs_mkdirlocal (ld @ [date_name t]) False,
       Fs_renamelocal lp (ld @ [date_name t] @ leafname lp) False]"
    by (simp add: debris_attempts_def numeral_2_eq_2)
  assume "n < 100"
  then show "debris_attempts t ld lp ! (n + 3) =
      (if n > 95 then [Fs_mkdirlocal ld True] else [])
        @ [Fs_mkdirlocal (ld @ [stamp_name t n]) False,
           Fs_renamelocal lp (ld @ [stamp_name t n] @ leafname lp) False]"
    unfolding debris_attempts_def
    by (subst nth_append) (simp del: upt_Suc)
qed

lemma round_new:
  assumes "-3 \<le> i" "i < 100"
  shows "snd (snd (snd (movetolocaldebris_round fo t ld lp i h fsa tr)))
           = tr @ debris_attempts t ld lp ! nat (i + 3)"
proof -
  consider "i = -3" | "i = -2" | "i = -1" | "0 \<le> i" using assms by linarith
  then show ?thesis
  proof cases
    case 1
    then show ?thesis
      by (simp add: movetolocaldebris_round_def Let_def appendWithSeparator_def debris_day_names
          debris_attempts_nth split: prod.splits)
  next
    case 2
    then show ?thesis
      by (simp add: movetolocaldebris_round_def Let_def appendWithSeparator_def debris_day_names
          debris_attempts_nth split: prod.splits)
  next
    case 3
    then have "nat (i + 3) = 2" by simp
    with 3 show ?thesis
      by (simp add: movetolocaldebris_round_def Let_def appendWithSeparator_def debris_day_names
          debris_attempts_nth split: prod.splits)
  next
    case 4
    then have n: "nat (i + 3) = nat i + 3" "nat i < 100" "(i > 95) = (nat i > 95)"
      using assms by auto
    from 4 have i: "i \<noteq> -2" "i > -3" "i \<noteq> -3" by auto
    show ?thesis
      unfolding n(1) debris_attempts_nth(4) [OF n(2)]
      using 4 i n(3)
      by (simp add: movetolocaldebris_round_def Let_def appendWithSeparator_def debris_day_names
          split: prod.splits)
  qed
qed


lemma round_explicit:
  "movetolocaldebris_round fo t ld lp i h fsa tr =
     (let fsa1 = (if i = -2 \<or> i > 95 then snd (mkdirlocal fo fsa ld True) else fsa);
          tr1 = (if i = -2 \<or> i > 95 then tr @ [Fs_mkdirlocal ld True] else tr);
          dayfolder = ld @ [debris_day t i];
          m = mkdirlocal fo fsa1 dayfolder False;
          h2 = (if i > -3 then fst m \<or> target_exists (snd m) else h);
          fsa2 = (if i > -3 then snd m else fsa1);
          tr2 = (if i > -3 then tr1 @ [Fs_mkdirlocal dayfolder False] else tr1);
          dst = dayfolder @ leafname lp;
          r = renamelocal fo (fsa2\<lparr>skip_errorreport := (i = -3)\<rparr>) lp dst False
      in (fst r, h2, (snd r)\<lparr>skip_errorreport := False\<rparr>, tr2 @ [Fs_renamelocal lp dst False]))"
  by (simp add: movetolocaldebris_round_def Let_def split_beta appendWithSeparator_def)

lemma round_rename:
  "\<exists>fsa0 dst pre. snd (snd (snd (movetolocaldebris_round fo t ld lp i h fsa tr)))
                       = tr @ pre @ [Fs_renamelocal lp dst False]
     \<and> fst (movetolocaldebris_round fo t ld lp i h fsa tr) = fst (renamelocal fo fsa0 lp dst False)
     \<and> fst (snd (snd (movetolocaldebris_round fo t ld lp i h fsa tr)))
         = (snd (renamelocal fo fsa0 lp dst False))\<lparr>skip_errorreport := False\<rparr>"
proof -
  define fsa1 where "fsa1 = (if i = -2 \<or> i > 95 then snd (mkdirlocal fo fsa ld True) else fsa)"
  define pre1 where "pre1 = (if i = -2 \<or> i > 95 then [Fs_mkdirlocal ld True] else [])"
  define m where "m = mkdirlocal fo fsa1 (ld @ [debris_day t i]) False"
  define fsa2 where "fsa2 = (if i > -3 then snd m else fsa1)"
  define pre2 where "pre2 = (if i > -3 then [Fs_mkdirlocal (ld @ [debris_day t i]) False] else [])"
  define dst where "dst = (ld @ [debris_day t i]) @ leafname lp"
  define fsa0 where "fsa0 = fsa2\<lparr>skip_errorreport := (i = -3)\<rparr>"
  have "snd (snd (snd (movetolocaldebris_round fo t ld lp i h fsa tr)))
          = tr @ (pre1 @ pre2) @ [Fs_renamelocal lp dst False]"
    by (simp add: round_explicit Let_def pre1_def pre2_def dst_def)
  moreover have "fst (movetolocaldebris_round fo t ld lp i h fsa tr) = fst (renamelocal fo fsa0 lp dst False)"
    by (simp add: round_explicit Let_def fsa0_def fsa2_def m_def fsa1_def dst_def)
  moreover have "fst (snd (snd (movetolocaldebris_round fo t ld lp i h fsa tr)))
         = (snd (renamelocal fo fsa0 lp dst False))\<lparr>skip_errorreport := False\<rparr>"
    by (simp add: round_explicit Let_def fsa0_def fsa2_def m_def fsa1_def dst_def)
  ultimately show ?thesis by blast
qed

lemma concat_drop_take_step:
  assumes "n < j" "j \<le> length xs"
  shows "concat (drop n (take j xs)) = xs ! n @ concat (drop (Suc n) (take j xs))"
proof -
  have "n < length (take j xs)" using assms by simp
  from Cons_nth_drop_Suc [OF this] have "drop n (take j xs) = take j xs ! n # drop (Suc n) (take j xs)"
    by simp
  then show ?thesis using assms by simp
qed

lemma loop_prefix:
  "k = nat (100 - i) \<Longrightarrow> -3 \<le> i \<Longrightarrow> i < 100 \<Longrightarrow>
     \<exists>j. nat (i + 3) < j \<and> j \<le> 103
         \<and> snd (snd (movetolocaldebris_loop fo t ld lp i h fsa tr))
             = tr @ concat (drop (nat (i + 3)) (take j (debris_attempts t ld lp)))"
proof (induction k arbitrary: i h fsa tr)
  case 0
  then show ?case by simp
next
  case (Suc k)
  then have lt: "i < 100" and ge: "-3 \<le> i" and k: "k = nat (100 - (i + 1))"
    by simp_all
  let ?n = "nat (i + 3)"
  have n: "?n < 103" "nat (i + 1 + 3) = Suc ?n" using lt ge by auto
  obtain renamed h' fsa' tr' where
    r: "movetolocaldebris_round fo t ld lp i h fsa tr = (renamed, h', fsa', tr')"
    by (metis prod_cases4)
  from round_new [OF ge lt, of fo t ld lp h fsa tr] r
  have tr': "tr' = tr @ debris_attempts t ld lp ! ?n" by simp
  have one: "concat (drop ?n (take (Suc ?n) (debris_attempts t ld lp))) = debris_attempts t ld lp ! ?n"
    using n(1) by (simp add: concat_drop_take_step)
  show ?case
  proof (cases "renamed \<or> transient_error fsa' \<or> (h' \<and> \<not> target_exists fsa') \<or> i = 99")
    case stop: True
    have "snd (snd (movetolocaldebris_loop fo t ld lp i h fsa tr)) = tr'"
    proof (cases "renamed \<or> transient_error fsa' \<or> (h' \<and> \<not> target_exists fsa')")
      case True
      then show ?thesis
        by (subst movetolocaldebris_loop.simps) (auto simp: lt r)
    next
      case False
      with stop have i: "i = 99" by blast
      have "movetolocaldebris_loop fo t ld lp i h fsa tr
              = movetolocaldebris_loop fo t ld lp (i + 1) h' fsa' tr'"
        using False by (subst movetolocaldebris_loop.simps) (auto simp: lt r)
      also have "\<dots> = (False, fsa', tr')"
        by (subst movetolocaldebris_loop.simps) (simp add: i)
      finally show ?thesis by simp
    qed
    with tr' one n(1) have "?n < Suc ?n \<and> Suc ?n \<le> 103
         \<and> snd (snd (movetolocaldebris_loop fo t ld lp i h fsa tr))
             = tr @ concat (drop ?n (take (Suc ?n) (debris_attempts t ld lp)))"
      by simp
    then show ?thesis by blast
  next
    case False
    then have step: "movetolocaldebris_loop fo t ld lp i h fsa tr
                 = movetolocaldebris_loop fo t ld lp (i + 1) h' fsa' tr'"
      by (subst movetolocaldebris_loop.simps) (auto simp: lt r)
    from False lt have lt': "i + 1 < 100" and ge': "-3 \<le> i + 1" using ge by auto
    from Suc.IH [OF k ge' lt', of h' fsa' tr'] obtain j where
      j: "Suc ?n < j" "j \<le> 103"
         "snd (snd (movetolocaldebris_loop fo t ld lp (i + 1) h' fsa' tr'))
             = tr' @ concat (drop (Suc ?n) (take j (debris_attempts t ld lp)))"
      unfolding n(2) by blast
    have "concat (drop ?n (take j (debris_attempts t ld lp)))
            = debris_attempts t ld lp ! ?n @ concat (drop (Suc ?n) (take j (debris_attempts t ld lp)))"
      using j(1,2) by (simp add: concat_drop_take_step)
    with j tr' step have "?n < j \<and> j \<le> 103
         \<and> snd (snd (movetolocaldebris_loop fo t ld lp i h fsa tr))
             = tr @ concat (drop ?n (take j (debris_attempts t ld lp)))"
      by simp
    then show ?thesis by blast
  qed
qed

lemma loop_true:
  "k = nat (100 - i) \<Longrightarrow> fst (movetolocaldebris_loop fo t ld lp i h fsa tr) \<Longrightarrow>
     \<exists>fsa0 dst pre. snd (snd (movetolocaldebris_loop fo t ld lp i h fsa tr))
                         = tr @ pre @ [Fs_renamelocal lp dst False]
       \<and> fst (renamelocal fo fsa0 lp dst False)
       \<and> fst (snd (movetolocaldebris_loop fo t ld lp i h fsa tr))
           = (snd (renamelocal fo fsa0 lp dst False))\<lparr>skip_errorreport := False\<rparr>"
proof (induction k arbitrary: i h fsa tr)
  case 0
  then have "movetolocaldebris_loop fo t ld lp i h fsa tr = (False, fsa, tr)"
    by (subst movetolocaldebris_loop.simps) simp
  with 0 show ?case by simp
next
  case (Suc k)
  then have lt: "i < 100" and k: "k = nat (100 - (i + 1))"
    by simp_all
  obtain renamed h' fsa' tr' where
    r: "movetolocaldebris_round fo t ld lp i h fsa tr = (renamed, h', fsa', tr')"
    by (metis prod_cases4)
  from round_rename [of fo t ld lp i h fsa tr] r obtain fsa0 dst pre where
    rr: "tr' = tr @ pre @ [Fs_renamelocal lp dst False]"
        "renamed = fst (renamelocal fo fsa0 lp dst False)"
        "fsa' = (snd (renamelocal fo fsa0 lp dst False))\<lparr>skip_errorreport := False\<rparr>"
    by auto
  show ?case
  proof (cases renamed)
    case True
    then have "movetolocaldebris_loop fo t ld lp i h fsa tr = (True, fsa', tr')"
      by (subst movetolocaldebris_loop.simps) (simp add: lt r)
    with rr True show ?thesis by auto
  next
    case False
    show ?thesis
    proof (cases "transient_error fsa' \<or> (h' \<and> \<not> target_exists fsa')")
      case True
      with False have "movetolocaldebris_loop fo t ld lp i h fsa tr = (False, fsa', tr')"
        by (subst movetolocaldebris_loop.simps) (auto simp: lt r)
      with Suc.prems(2) show ?thesis by simp
    next
      case stop: False
      with False have step: "movetolocaldebris_loop fo t ld lp i h fsa tr
                 = movetolocaldebris_loop fo t ld lp (i + 1) h' fsa' tr'"
        by (subst movetolocaldebris_loop.simps) (auto simp: lt r)
      with Suc.prems(2) have "fst (movetolocaldebris_loop fo t ld lp (i + 1) h' fsa' tr')"
        by simp
      from Suc.IH [OF k this] obtain fsa1 dst1 pre1 where
        "snd (snd (movetolocaldebris_loop fo t ld lp (i + 1) h' fsa' tr'))
                         = tr' @ pre1 @ [Fs_renamelocal lp dst1 False]"
        "fst (renamelocal fo fsa1 lp dst1 False)"
        "fst (snd (movetolocaldebris_loop fo t ld lp (i + 1) h' fsa' tr'))
           = (snd (renamelocal fo fsa1 lp dst1 False))\<lparr>skip_errorreport := False\<rparr>"
        by blast
      with rr(1) step have "snd (snd (movetolocaldebris_loop fo t ld lp i h fsa tr))
                         = tr @ (pre @ [Fs_renamelocal lp dst False] @ pre1) @ [Fs_renamelocal lp dst1 False]
       \<and> fst (renamelocal fo fsa1 lp dst1 False)
       \<and> fst (snd (movetolocaldebris_loop fo t ld lp i h fsa tr))
           = (snd (renamelocal fo fsa1 lp dst1 False))\<lparr>skip_errorreport := False\<rparr>"
        by simp
      then show ?thesis by blast
    qed
  qed
qed

lemma round_flags:
  assumes "rename_fails_target_exists fo"
  shows "\<not> fst (movetolocaldebris_round fo t ld lp i h fsa tr)
     \<and> target_exists (fst (snd (snd (movetolocaldebris_round fo t ld lp i h fsa tr))))
     \<and> \<not> transient_error (fst (snd (snd (movetolocaldebris_round fo t ld lp i h fsa tr))))"
  using assms unfolding rename_fails_target_exists_def
  by (simp add: movetolocaldebris_round_def Let_def split: prod.splits) (metis fst_conv snd_conv)

lemma loop_exhausts:
  assumes H: "rename_fails_target_exists fo"
  shows "k = nat (100 - i) \<Longrightarrow> -3 \<le> i \<Longrightarrow> i \<le> 100 \<Longrightarrow>
         \<not> fst (movetolocaldebris_loop fo t ld lp i h fsa tr)
         \<and> snd (snd (movetolocaldebris_loop fo t ld lp i h fsa tr))
             = tr @ concat (drop (nat (i + 3)) (debris_attempts t ld lp))"
proof (induction k arbitrary: i h fsa tr)
  case 0
  then have "i = 100" by simp
  then show ?case
    by (subst (1 2) movetolocaldebris_loop.simps) simp
next
  case (Suc k)
  then have lt: "i < 100" and ge: "-3 \<le> i" and k: "k = nat (100 - (i + 1))"
    by simp_all
  let ?n = "nat (i + 3)"
  have n: "?n < 103" "nat (i + 1 + 3) = Suc ?n" "nat (4 + i) = Suc ?n" using lt ge by auto
  obtain renamed h' fsa' tr' where
    r: "movetolocaldebris_round fo t ld lp i h fsa tr = (renamed, h', fsa', tr')"
    by (metis prod_cases4)
  from round_flags [OF H, of t ld lp i h fsa tr] r
  have fl: "\<not> renamed" "target_exists fsa'" "\<not> transient_error fsa'"
    by simp_all
  from round_new [OF ge lt, of fo t ld lp h fsa tr] r
  have tr': "tr' = tr @ debris_attempts t ld lp ! ?n" by simp
  have step: "movetolocaldebris_loop fo t ld lp i h fsa tr
                = movetolocaldebris_loop fo t ld lp (i + 1) h' fsa' tr'"
    by (subst movetolocaldebris_loop.simps) (simp add: lt r fl)
  have "drop ?n (debris_attempts t ld lp)
          = debris_attempts t ld lp ! ?n # drop (Suc ?n) (debris_attempts t ld lp)"
    using n(1) by (simp add: Cons_nth_drop_Suc)
  then show ?case
    using Suc.IH [OF k, of h' fsa' tr'] lt ge by (simp add: step tr' n(2,3))
qed

lemma first_rename_succeeds:
  assumes "fst (renamelocal fo (fsa\<lparr>skip_errorreport := True\<rparr>) lp (ld @ [date_name t] @ leafname lp) False)"
  shows "movetolocaldebris fo t ld lp fsa tr
           = (True,
              (snd (renamelocal fo (fsa\<lparr>skip_errorreport := True\<rparr>) lp
                      (ld @ [date_name t] @ leafname lp) False))\<lparr>skip_errorreport := False\<rparr>,
              tr @ [Fs_renamelocal lp (ld @ [date_name t] @ leafname lp) False])"
proof -
  let ?r = "renamelocal fo (fsa\<lparr>skip_errorreport := True\<rparr>) lp (ld @ [date_name t] @ leafname lp) False"
  have "movetolocaldebris_round fo t ld lp (-3) False fsa tr
          = (fst ?r, False, (snd ?r)\<lparr>skip_errorreport := False\<rparr>,
             tr @ [Fs_renamelocal lp (ld @ [date_name t] @ leafname lp) False])"
    by (simp add: movetolocaldebris_round_def Let_def appendWithSeparator_def debris_day_names
        split: prod.splits)
  with assms show ?thesis
    unfolding movetolocaldebris_def
    by (subst movetolocaldebris_loop.simps) simp
qed

lemma ops_all_exist_fails: "rename_fails_target_exists ops_all_exist"
  by (simp add: rename_fails_target_exists_def ops_all_exist_def)


subsection \<open>Rows that reach the comparison\<close>

lemma frange_cong:
  "(\<And>l. ln_type (localnodes st' l) = ln_type (localnodes st l)
        \<and> ln_sync (localnodes st' l) = ln_sync (localnodes st l)
        \<and> ln_fingerprint (localnodes st' l) = ln_fingerprint (localnodes st l))
   \<Longrightarrow> fsfingerprint st' = fsfingerprint st \<Longrightarrow> win32 st' = win32 st
   \<Longrightarrow> driveLetter st' = driveLetter st
   \<Longrightarrow> fs_type fsn' = fs_type fsn \<Longrightarrow> fs_mtime fsn' = fs_mtime fsn \<Longrightarrow> fs_size fsn' = fs_size fsn
   \<Longrightarrow> findLocalNodeByFsid_range st' fsn' sy ls = findLocalNodeByFsid_range st fsn sy ls"
  by (induction ls) (auto simp: Let_def)

lemma find_cong:
  "(\<And>l. ln_type (localnodes st' l) = ln_type (localnodes st l)
        \<and> ln_sync (localnodes st' l) = ln_sync (localnodes st l)
        \<and> ln_fingerprint (localnodes st' l) = ln_fingerprint (localnodes st l))
   \<Longrightarrow> fsfingerprint st' = fsfingerprint st \<Longrightarrow> win32 st' = win32 st
   \<Longrightarrow> driveLetter st' = driveLetter st \<Longrightarrow> localnodeByFsid st' = localnodeByFsid st
   \<Longrightarrow> fs_type fsn' = fs_type fsn \<Longrightarrow> fs_mtime fsn' = fs_mtime fsn \<Longrightarrow> fs_size fsn' = fs_size fsn
   \<Longrightarrow> fs_fsid fsn' = fs_fsid fsn
   \<Longrightarrow> findLocalNodeByFsid st' fsn' sy = findLocalNodeByFsid st fsn sy"
  unfolding findLocalNodeByFsid_def
  by (simp add: frange_cong [of st' st fsn' fsn])

lemma quiet_refl: "quiet_step st st"
  unfolding quiet_step_def
  by (rule exI [of _ "localnodes st"], rule exI [of _ "[]"]) (simp add: core_eq_def)

lemma core_eq_trans: "core_eq a b \<Longrightarrow> core_eq b c \<Longrightarrow> core_eq a c"
  by (simp add: core_eq_def)

lemma quiet_trans:
  assumes "quiet_step st st1" "quiet_step st1 st2"
  shows "quiet_step st st2"
proof -
  from assms(1) obtain L1 n1 where 1: "st1 = st\<lparr>localnodes := L1, trace := trace st @ n1\<rparr>"
    "\<forall>l. core_eq (L1 l) (localnodes st l)" "\<forall>a\<in>set n1. \<not> side_command a"
    unfolding quiet_step_def by blast
  from assms(2) obtain L2 n2 where 2: "st2 = st1\<lparr>localnodes := L2, trace := trace st1 @ n2\<rparr>"
    "\<forall>l. core_eq (L2 l) (localnodes st1 l)" "\<forall>a\<in>set n2. \<not> side_command a"
    unfolding quiet_step_def by blast
  have "st2 = st\<lparr>localnodes := L2, trace := trace st @ (n1 @ n2)\<rparr>"
    using 1(1) 2(1) by simp
  moreover have "\<forall>l. core_eq (L2 l) (localnodes st l)"
    using 1(1,2) 2(2) by (auto intro: core_eq_trans)
  moreover have "\<forall>a\<in>set (n1 @ n2). \<not> side_command a"
    using 1(3) 2(3) by auto
  ultimately show ?thesis
    unfolding quiet_step_def by blast
qed

lemma quiet_emit: "\<not> side_command a \<Longrightarrow> quiet_step st (emit a st)"
  unfolding quiet_step_def emit_def
  by (rule exI [of _ "localnodes st"], rule exI [of _ "[a]"]) (simp add: core_eq_def)

lemma quiet_update:
  "(\<And>ln. core_eq (f ln) ln) \<Longrightarrow> quiet_step st (update_localnode l f st)"
  unfolding quiet_step_def update_localnode_def
  by (rule exI [of _ "(localnodes st)(l := f (localnodes st l))"], rule exI [of _ "[]"])
    (simp add: core_eq_def)

lemma quiet_shortname_refresh:
  "quiet_step st (setnameparent l (ln_parent (localnodes st l)) None sh b st)"
  unfolding quiet_step_def setnameparent_def update_localnode_def emit_def
  by (rule exI [of _ "(localnodes st)(l := (localnodes st l)\<lparr>ln_parent := ln_parent (localnodes st l),
          ln_localpath := ln_localpath (localnodes st l), ln_slocalname := sh\<rparr>)"],
      rule exI [of _ "[LocalNode_setnameparent l (ln_parent (localnodes st l)) None sh b]"])
    (simp add: core_eq_def)

lemma quiet_fields:
  assumes "quiet_step st st'"
  shows "cloudnodes st' = cloudnodes st" "known st' = known st" "canceled st' = canceled st"
    "insertq st' = insertq st" "deleteq st' = deleteq st" "fsaccess st' = fsaccess st"
    "stall st' = stall st" "this_sync st' = this_sync st" "fsfingerprint st' = fsfingerprint st"
    "win32 st' = win32 st" "driveLetter st' = driveLetter st" "localdebris st' = localdebris st"
    "localnodeByFsid st' = localnodeByFsid st" "statecurrent st' = statecurrent st"
    "fsStateCurrent st' = fsStateCurrent st"
    "core_eq (localnodes st' l) (localnodes st l)"
  using assms unfolding quiet_step_def by auto

lemma quiet_core:
  assumes "quiet_step st st'"
  shows "core_eq (localnodes st' l) (localnodes st l)"
  using assms unfolding quiet_step_def by auto

lemma quiet_trace:
  assumes "quiet_step st st'"
  shows "\<exists>new. trace st' = trace st @ new \<and> (\<forall>a\<in>set new. \<not> side_command a)"
  using assms unfolding quiet_step_def by auto

lemma quiet_find:
  assumes "quiet_step st st'"
  shows "findLocalNodeByFsid st' (fsn\<lparr>fs_shortname := sh\<rparr>) sy = findLocalNodeByFsid st fsn sy"
proof (rule find_cong)
  fix l
  show "ln_type (localnodes st' l) = ln_type (localnodes st l)
        \<and> ln_sync (localnodes st' l) = ln_sync (localnodes st l)
        \<and> ln_fingerprint (localnodes st' l) = ln_fingerprint (localnodes st l)"
    using quiet_core [OF assms, of l] by (simp add: core_eq_def)
qed (simp_all add: quiet_fields [OF assms])

lemma shortname_stage:
  assumes "syncNode row = Some sn" "fsNode row = Some fsn"
  shows "\<exists>sh st1. syncItem_shortname st row = (row\<lparr>fsNode := Some (fsn\<lparr>fs_shortname := sh\<rparr>)\<rparr>, st1)
           \<and> quiet_step st st1
           \<and> ln_useBlocked (localnodes st1 sn) = ln_useBlocked (localnodes st sn)
           \<and> ln_scanBlocked (localnodes st1 sn) = ln_scanBlocked (localnodes st sn)
           \<and> ln_blockedTimer (localnodes st1 sn) = ln_blockedTimer (localnodes st sn)"
proof (cases "\<exists>shortname. fs_shortname fsn = Some shortname
                \<and> ln_slocalname (localnodes st sn) \<noteq> Some shortname")
  case True
  then obtain shortname where sh: "fs_shortname fsn = Some shortname"
    "ln_slocalname (localnodes st sn) \<noteq> Some shortname" by blast
  let ?st1 = "setnameparent sn (ln_parent (localnodes st sn)) None (Some shortname) False st"
  have "syncItem_shortname st row = (row\<lparr>fsNode := Some (fsn\<lparr>fs_shortname := None\<rparr>)\<rparr>, ?st1)"
    using assms sh by (simp add: syncItem_shortname_def)
  moreover have "quiet_step st ?st1"
    by (rule quiet_shortname_refresh)
  moreover have "ln_useBlocked (localnodes ?st1 sn) = ln_useBlocked (localnodes st sn)"
    "ln_scanBlocked (localnodes ?st1 sn) = ln_scanBlocked (localnodes st sn)"
    "ln_blockedTimer (localnodes ?st1 sn) = ln_blockedTimer (localnodes st sn)"
    by (simp_all add: setnameparent_def update_localnode_def emit_def)
  ultimately show ?thesis by blast
next
  case False
  then have "syncItem_shortname st row = (row, st)"
    using assms by (auto simp: syncItem_shortname_def split: option.splits)
  moreover have "row\<lparr>fsNode := Some (fsn\<lparr>fs_shortname := fs_shortname fsn\<rparr>)\<rparr> = row"
    using assms by simp
  ultimately have "syncItem_shortname st row
                     = (row\<lparr>fsNode := Some (fsn\<lparr>fs_shortname := fs_shortname fsn\<rparr>)\<rparr>, st)"
    by simp
  then show ?thesis
    using quiet_refl by blast
qed

lemma blocked_stage:
  assumes "syncNode row = Some sn"
    "level (ln_useBlocked (localnodes st sn)) \<ge> level SYNCTREE_ACTION_HERE_ONLY
       \<longrightarrow> ln_blockedTimer (localnodes st sn) = Some True"
    "level (ln_scanBlocked (localnodes st sn)) < level SYNCTREE_ACTION_HERE_ONLY"
  shows "\<exists>st2. syncItem_blocked st row parentRow = Inr (None, st2) \<and> quiet_step st st2"
proof (cases "level (ln_useBlocked (localnodes st sn)) \<ge> level SYNCTREE_DESCENDANT_FLAGGED
               \<or> level (ln_scanBlocked (localnodes st sn)) \<ge> level SYNCTREE_DESCENDANT_FLAGGED")
  case True
  let ?st2 = "update_localnode sn
                (\<lambda>ln. ln\<lparr>ln_scanBlocked := SYNCTREE_RESOLVED, ln_blockedTimer := None\<rparr>) st"
  have "syncItem_blocked st row parentRow = Inr (None, ?st2)"
    using assms True by (auto simp: syncItem_blocked_def thenE_def)
  moreover have "quiet_step st ?st2"
    by (rule quiet_update) (simp add: core_eq_def)
  ultimately show ?thesis by blast
next
  case False
  then have "syncItem_blocked st row parentRow = Inr (None, st)"
    using assms by (auto simp: syncItem_blocked_def thenE_def)
  then show ?thesis
    using quiet_refl by blast
qed

lemma fsblocked_stage:
  assumes "fsNode row = Some fsn" "fs_type fsn \<noteq> TYPE_UNKNOWN" "\<not> fs_isBlocked fsn"
  shows "syncItem_fsblocked e st row parentRow fullPath = Inr (None, row, st)"
  using assms by (simp add: syncItem_fsblocked_def)

lemma find_emit [simp]: "findLocalNodeByFsid (emit a st) fsn sy = findLocalNodeByFsid st fsn sy"
  by (rule find_cong) (simp_all add: emit_def)

lemma emit_fields [simp]:
  "localnodes (emit a st) = localnodes st" "this_sync (emit a st) = this_sync st"
  "fsaccess (emit a st) = fsaccess st" "cloudnodes (emit a st) = cloudnodes st"
  "trace (emit a st) = trace st @ [a]" "stall (emit a st) = stall st"
  by (simp_all add: emit_def)

lemma local_stage:
  assumes "syncNode row = Some sn" "fsNode row = Some fsn"
    "calls_checkLocalPath st row \<and> ln_type (localnodes st sn) = fs_type fsn
       \<and> ln_type (localnodes st sn) = FILENODE
     \<longrightarrow> findLocalNodeByFsid st fsn (this_sync st) = None"
  shows "\<exists>st3. (if calls_checkLocalPath st row
                 then checkLocalPathForMovesRenames e st row parentRow fullPath
                 else Inr (None, row, st)) = Inr (None, row, st3) \<and> quiet_step st st3"
proof (cases "calls_checkLocalPath st row \<and> ln_type (localnodes st sn) = fs_type fsn")
  case True
  have "checkLocalPathForMovesRenames e st row parentRow fullPath
          = Inr (None, row, emit (LocalNode_setnotseen sn 0) st)"
    using assms True by (simp add: checkLocalPathForMovesRenames_def Let_def)
  moreover have "quiet_step st (emit (LocalNode_setnotseen sn 0) st)"
    by (rule quiet_emit) simp
  ultimately show ?thesis
    using True by auto
next
  case False
  then have "(if calls_checkLocalPath st row
              then checkLocalPathForMovesRenames e st row parentRow fullPath
              else Inr (None, row, st)) = Inr (None, row, st)"
    using assms by (auto simp: checkLocalPathForMovesRenames_def)
  then show ?thesis
    using quiet_refl by blast
qed

lemma cloud_stage:
  assumes "calls_checkCloudPath st row \<longrightarrow>
       (case cloudNode row of None \<Rightarrow> True
        | Some c \<Rightarrow> (case n_localnode (cloudnodes st c) of None \<Rightarrow> True
                     | Some l \<Rightarrow> ln_parent (localnodes st l) = None))"
  shows "(if calls_checkCloudPath st row
          then checkCloudPathForMovesRenames e st row parentRow fullPath
          else Inr (None, row, st)) = Inr (None, row, st)"
  using assms
  by (auto simp: checkCloudPathForMovesRenames_def calls_checkCloudPath_def split: option.splits)

lemma quiet_calls:
  assumes "quiet_step st st'" "fsNode row = Some fsn"
  shows "calls_checkLocalPath st' (row\<lparr>fsNode := Some (fsn\<lparr>fs_shortname := sh\<rparr>)\<rparr>)
           = calls_checkLocalPath st row"
    "calls_checkCloudPath st' (row\<lparr>fsNode := Some (fsn\<lparr>fs_shortname := sh\<rparr>)\<rparr>)
           = calls_checkCloudPath st row"
  using assms(2) quiet_core [OF assms(1)]
  by (auto simp: calls_checkLocalPath_def calls_checkCloudPath_def core_eq_def split: option.splits)

lemma syncEqual_core:
  assumes "core_eq a b"
  shows "syncEqual_cloud n a = syncEqual_cloud n b"
    "syncEqual_fs (fsn\<lparr>fs_shortname := sh\<rparr>) a = syncEqual_fs fsn b"
  using assms by (simp_all add: syncEqual_cloud_def syncEqual_fs_def core_eq_def)

lemma syncItem_reaches_cases:
  assumes row: "syncNode row = Some sn" "fsNode row = Some fsn"
    and rc: "reaches_comparison st row"
  shows "\<exists>sh st3. syncItem e st row parentRow fullPath
                    = syncItem_cases e st3 (row\<lparr>fsNode := Some (fsn\<lparr>fs_shortname := sh\<rparr>)\<rparr>)
                        parentRow fullPath
                  \<and> quiet_step st st3"
proof -
  from rc row have nw:
    "level (ln_useBlocked (localnodes st sn)) \<ge> level SYNCTREE_ACTION_HERE_ONLY
       \<longrightarrow> ln_blockedTimer (localnodes st sn) = Some True"
    "level (ln_scanBlocked (localnodes st sn)) < level SYNCTREE_ACTION_HERE_ONLY"
    and rd: "fs_type fsn \<noteq> TYPE_UNKNOWN" "\<not> fs_isBlocked fsn"
    and nm: "no_move_detected st row"
    by (simp_all add: reaches_comparison_def)
  from shortname_stage [OF row, of st] obtain sh st1 where
    s1: "syncItem_shortname st row = (row\<lparr>fsNode := Some (fsn\<lparr>fs_shortname := sh\<rparr>)\<rparr>, st1)"
    and q1: "quiet_step st st1"
    and b1: "ln_useBlocked (localnodes st1 sn) = ln_useBlocked (localnodes st sn)"
      "ln_scanBlocked (localnodes st1 sn) = ln_scanBlocked (localnodes st sn)"
      "ln_blockedTimer (localnodes st1 sn) = ln_blockedTimer (localnodes st sn)"
    by blast
  let ?row = "row\<lparr>fsNode := Some (fsn\<lparr>fs_shortname := sh\<rparr>)\<rparr>"
  have row1: "syncNode ?row = Some sn" "fsNode ?row = Some (fsn\<lparr>fs_shortname := sh\<rparr>)"
    using row by simp_all
  from blocked_stage [of ?row sn st1 parentRow] row1 nw b1 obtain st2 where
    s2: "syncItem_blocked st1 ?row parentRow = Inr (None, st2)" and q2: "quiet_step st1 st2"
    by auto
  have q02: "quiet_step st st2"
    by (rule quiet_trans [OF q1 q2])
  have s3: "syncItem_fsblocked e st2 ?row parentRow fullPath = Inr (None, ?row, st2)"
    by (rule fsblocked_stage [OF row1(2)]) (simp_all add: rd)
  have "calls_checkLocalPath st2 ?row \<and> ln_type (localnodes st2 sn) = fs_type (fsn\<lparr>fs_shortname := sh\<rparr>)
          \<and> ln_type (localnodes st2 sn) = FILENODE \<longrightarrow>
          findLocalNodeByFsid st2 (fsn\<lparr>fs_shortname := sh\<rparr>) (this_sync st2) = None"
    using nm row quiet_core [OF q02, of sn]
    by (auto simp: quiet_calls [OF q02 row(2)] quiet_find [OF q02]
        quiet_fields(8) [OF q02] no_move_detected_def core_eq_def)
  from local_stage [OF row1 this, of e parentRow fullPath] obtain st3 where
    s4: "(if calls_checkLocalPath st2 ?row
          then checkLocalPathForMovesRenames e st2 ?row parentRow fullPath
          else Inr (None, ?row, st2)) = Inr (None, ?row, st3)"
    and q3: "quiet_step st2 st3"
    by blast
  have q03: "quiet_step st st3"
    by (rule quiet_trans [OF q02 q3])
  have "calls_checkCloudPath st3 ?row \<longrightarrow>
       (case cloudNode ?row of None \<Rightarrow> True
        | Some c \<Rightarrow> (case n_localnode (cloudnodes st3 c) of None \<Rightarrow> True
                     | Some l \<Rightarrow> ln_parent (localnodes st3 l) = None))"
    using nm quiet_core [OF q03]
    by (auto simp: quiet_calls [OF q03 row(2)] quiet_fields(1) [OF q03] no_move_detected_def
        core_eq_def split: option.splits)
  from cloud_stage [OF this, of e parentRow fullPath]
  have s5: "(if calls_checkCloudPath st3 ?row
             then checkCloudPathForMovesRenames e st3 ?row parentRow fullPath
             else Inr (None, ?row, st3)) = Inr (None, ?row, st3)" .
  have "syncItem e st row parentRow fullPath = syncItem_cases e st3 ?row parentRow fullPath"
    unfolding syncItem_def by (simp add: s1 s2 s3 s4 s5 thenE_def)
  with q03 show ?thesis by blast
qed

text \<open>
  C2, amended. A row with all three sides present that reaches the comparison, and in
  which both the cloud node and the filesystem entry differ from the LocalNode, is
  left unresolved: \<^verbatim>\<open>syncItem\<close> returns \<^verbatim>\<open>false\<close>, records no stall, and changes
  nothing on either side (no call that is a \<open>side_command\<close>, filesystem object and
  cloud nodes as before).
\<close>

theorem syncItem_both_changed:
  assumes row: "cloudNode row = Some c" "syncNode row = Some sn" "fsNode row = Some fsn"
    and rc: "reaches_comparison st row"
    and ne: "\<not> syncEqual_cloud (cloudnodes st c) (localnodes st sn)"
            "\<not> syncEqual_fs fsn (localnodes st sn)"
  shows "\<exists>row' st'. syncItem e st row parentRow fullPath = Inr (False, row', st')
           \<and> stall st' = stall st \<and> fsaccess st' = fsaccess st \<and> cloudnodes st' = cloudnodes st
           \<and> (\<exists>new. trace st' = trace st @ new \<and> (\<forall>a\<in>set new. \<not> side_command a))"
proof -
  from syncItem_reaches_cases [OF row(2,3) rc, of e parentRow fullPath] obtain sh st3 where
    eq: "syncItem e st row parentRow fullPath
           = syncItem_cases e st3 (row\<lparr>fsNode := Some (fsn\<lparr>fs_shortname := sh\<rparr>)\<rparr>) parentRow fullPath"
    and q: "quiet_step st st3"
    by blast
  have ce: "core_eq (localnodes st3 sn) (localnodes st sn)"
    by (rule quiet_core [OF q])
  have "syncItem_cases e st3 (row\<lparr>fsNode := Some (fsn\<lparr>fs_shortname := sh\<rparr>)\<rparr>) parentRow fullPath
          = Inr (False, row\<lparr>fsNode := Some (fsn\<lparr>fs_shortname := sh\<rparr>)\<rparr>, st3)"
    using row ne
    by (simp add: syncItem_cases_def quiet_fields(1) [OF q] syncEqual_core [OF ce]
        resolve_userIntervention_def)
  with eq quiet_trace [OF q] quiet_fields [OF q] show ?thesis
    by simp
qed

text \<open>
  C1, amended. A row with all three sides present that reaches the comparison, and in
  which both the cloud node and the filesystem entry equal the LocalNode, is declared
  synced; no upload, download, move or delete is commanded; afterwards the LocalNode
  carries the observed fsid and cloud handle, and if either differed before, the
  LocalNode is queued for the state cache unless the sync has been cancelled.
\<close>

theorem syncItem_row_synced:
  assumes row: "cloudNode row = Some c" "syncNode row = Some sn" "fsNode row = Some fsn"
    and rc: "reaches_comparison st row"
    and eq: "syncEqual_cloud (cloudnodes st c) (localnodes st sn)"
            "syncEqual_fs fsn (localnodes st sn)"
  shows "\<exists>row' st'. syncItem e st row parentRow fullPath = Inr (True, row', st')
           \<and> (\<exists>new. trace st' = trace st @ new \<and> (\<forall>a\<in>set new. \<not> side_command a))
           \<and> fsaccess st' = fsaccess st
           \<and> ln_fsid (localnodes st' sn) = fs_fsid fsn
           \<and> ln_syncedCloudNodeHandle (localnodes st' sn) = c
           \<and> ((ln_fsid (localnodes st sn) \<noteq> fs_fsid fsn
                 \<or> ln_syncedCloudNodeHandle (localnodes st sn) \<noteq> c) \<and> \<not> canceled st
               \<longrightarrow> sn \<in> insertq st')"
proof -
  from syncItem_reaches_cases [OF row(2,3) rc, of e parentRow fullPath] obtain sh st3 where
    e1: "syncItem e st row parentRow fullPath
           = syncItem_cases e st3 (row\<lparr>fsNode := Some (fsn\<lparr>fs_shortname := sh\<rparr>)\<rparr>) parentRow fullPath"
    and q: "quiet_step st st3"
    by blast
  let ?row = "row\<lparr>fsNode := Some (fsn\<lparr>fs_shortname := sh\<rparr>)\<rparr>"
  have ce: "core_eq (localnodes st3 sn) (localnodes st sn)"
    by (rule quiet_core [OF q])
  have eq3: "syncEqual_cloud (cloudnodes st3 c) (localnodes st3 sn)"
    "syncEqual_fs (fsn\<lparr>fs_shortname := sh\<rparr>) (localnodes st3 sn)"
    using eq by (simp_all add: quiet_fields(1) [OF q] syncEqual_core [OF ce])
  from quiet_trace [OF q] obtain new where
    tr: "trace st3 = trace st @ new" "\<forall>a\<in>set new. \<not> side_command a" by blast
  show ?thesis
  proof (cases "ln_fsid (localnodes st sn) \<noteq> fs_fsid fsn
                 \<or> ln_syncedCloudNodeHandle (localnodes st sn) \<noteq> c")
    case False
    then have "syncItem_cases e st3 ?row parentRow fullPath = Inr (True, ?row, st3)"
      using row eq3 ce by (simp add: syncItem_cases_def core_eq_def)
    with e1 tr False ce quiet_fields [OF q] show ?thesis
      by (auto simp: core_eq_def)
  next
    case True
    let ?st' = "syncItem_set_synced sn (fs_fsid (fsn\<lparr>fs_shortname := sh\<rparr>)) c st3"
    have r: "syncItem_cases e st3 ?row parentRow fullPath = Inr (True, ?row, ?st')"
      using row eq3 ce True
      by (simp add: syncItem_cases_def core_eq_def)
    have f: "trace ?st' = trace st3" "fsaccess ?st' = fsaccess st3"
      "ln_fsid (localnodes ?st' sn) = fs_fsid fsn" "ln_syncedCloudNodeHandle (localnodes ?st' sn) = c"
      "\<not> canceled st3 \<longrightarrow> sn \<in> insertq ?st'"
      by (simp_all add: syncItem_set_synced_def statecacheadd_def update_localnode_def Let_def
          split: option.splits)
    from e1 r tr f quiet_fields [OF q] show ?thesis
      by simp
  qed
qed

text \<open>
  C1, as stated, fails: the row of \<open>a.txt\<close> has all three sides present and equal,
  but its LocalNode waits on the use-blocked timer, and \<^verbatim>\<open>syncItem\<close> returns
  \<^verbatim>\<open>false\<close> before it compares anything.
\<close>

theorem syncItem_waits_on_blocked_timer:
  "syncEqual_cloud (cloudnodes ex_state_blocked 501) (localnodes ex_state_blocked 2)
   \<and> syncEqual_fs ex_fsnode (localnodes ex_state_blocked 2)
   \<and> syncItem ex_env ex_state_blocked ex_row ex_parentRow [''root'', ''a.txt'']
       = Inr (False, ex_row, ex_state_blocked)"
  by (simp add: syncItem_defs ex_defs ex_state_blocked_def)

lemma ex_reaches: "reaches_comparison ex_state ex_row_new_inode"
  by (simp add: reaches_comparison_def no_move_detected_def findLocalNodeByFsid_def
      calls_checkLocalPath_def calls_checkCloudPath_def ex_row_new_inode_def ex_defs UNDEF_def)

theorem syncItem_row_synced_witness:
  "reaches_comparison ex_state ex_row_new_inode
   \<and> syncEqual_cloud (cloudnodes ex_state 501) (localnodes ex_state 2)
   \<and> syncEqual_fs (ex_fsnode\<lparr>fs_fsid := 111\<rparr>) (localnodes ex_state 2)
   \<and> ln_fsid (localnodes ex_state 2) = 101
   \<and> (\<exists>row' st'. syncItem ex_env ex_state ex_row_new_inode ex_parentRow [''root'', ''a.txt'']
                      = Inr (True, row', st')
         \<and> (\<exists>new. trace st' = new \<and> (\<forall>a\<in>set new. \<not> side_command a))
         \<and> fsaccess st' = fsa_init
         \<and> ln_fsid (localnodes st' 2) = 111
         \<and> ln_syncedCloudNodeHandle (localnodes st' 2) = 501
         \<and> 2 \<in> insertq st')"
proof -
  have r: "cloudNode ex_row_new_inode = Some 501" "syncNode ex_row_new_inode = Some 2"
    "fsNode ex_row_new_inode = Some (ex_fsnode\<lparr>fs_fsid := 111\<rparr>)"
    by (simp_all add: ex_row_new_inode_def ex_row_def)
  have e: "syncEqual_cloud (cloudnodes ex_state 501) (localnodes ex_state 2)"
    "syncEqual_fs (ex_fsnode\<lparr>fs_fsid := 111\<rparr>) (localnodes ex_state 2)"
    by (simp_all add: syncEqual_cloud_def syncEqual_fs_def fingerprint_eq_def ex_defs)
  have f: "ln_fsid (localnodes ex_state 2) = 101" "\<not> canceled ex_state" "trace ex_state = []"
    "fsaccess ex_state = fsa_init"
    by (simp_all add: ex_defs)
  from syncItem_row_synced [OF r ex_reaches e, of ex_env ex_parentRow "[''root'', ''a.txt'']"]
  show ?thesis
    using ex_reaches e f by (simp add: ex_fsnode_def)
qed

text \<open>
  C2, as stated, fails: cloud node and filesystem entry both differ from the LocalNode,
  and \<^verbatim>\<open>syncItem\<close> returns \<^verbatim>\<open>false\<close> leaving the state as it was; the stall
  report stays empty.
\<close>

theorem syncItem_no_stall_raised:
  "\<not> syncEqual_cloud (cloudnodes ex_state_both_changed 501) (localnodes ex_state_both_changed 2)
   \<and> \<not> syncEqual_fs (ex_fsnode\<lparr>fs_size := 12, fs_fingerprint := ex_fp\<lparr>fp_size := 12\<rparr>\<rparr>)
          (localnodes ex_state_both_changed 2)
   \<and> stall ex_state_both_changed = []
   \<and> syncItem ex_env ex_state_both_changed ex_row_changed ex_parentRow [''root'', ''a.txt'']
       = Inr (False, ex_row_changed, ex_state_both_changed)"
  by (simp add: syncItem_defs ex_defs ex_state_both_changed_def ex_row_changed_def
      resolve_userIntervention_def)

lemma ex_reaches_changed: "reaches_comparison ex_state_both_changed ex_row_changed"
  by (simp add: reaches_comparison_def no_move_detected_def findLocalNodeByFsid_def
      calls_checkLocalPath_def calls_checkCloudPath_def ex_row_changed_def ex_state_both_changed_def
      ex_defs UNDEF_def)

theorem syncItem_both_changed_witness:
  "reaches_comparison ex_state_both_changed ex_row_changed
   \<and> \<not> syncEqual_cloud (cloudnodes ex_state_both_changed 501) (localnodes ex_state_both_changed 2)
   \<and> \<not> syncEqual_fs (ex_fsnode\<lparr>fs_size := 12, fs_fingerprint := ex_fp\<lparr>fp_size := 12\<rparr>\<rparr>)
          (localnodes ex_state_both_changed 2)
   \<and> (\<exists>row' st'. syncItem ex_env ex_state_both_changed ex_row_changed ex_parentRow [''root'', ''a.txt'']
                      = Inr (False, row', st')
         \<and> stall st' = [] \<and> fsaccess st' = fsa_init
         \<and> cloudnodes st' = cloudnodes ex_state_both_changed
         \<and> (\<exists>new. trace st' = new \<and> (\<forall>a\<in>set new. \<not> side_command a)))"
proof -
  have r: "cloudNode ex_row_changed = Some 501" "syncNode ex_row_changed = Some 2"
    "fsNode ex_row_changed = Some (ex_fsnode\<lparr>fs_size := 12, fs_fingerprint := ex_fp\<lparr>fp_size := 12\<rparr>\<rparr>)"
    by (simp_all add: ex_row_changed_def ex_row_def)
  have ne: "\<not> syncEqual_cloud (cloudnodes ex_state_both_changed 501) (localnodes ex_state_both_changed 2)"
    "\<not> syncEqual_fs (ex_fsnode\<lparr>fs_size := 12, fs_fingerprint := ex_fp\<lparr>fp_size := 12\<rparr>\<rparr>)
          (localnodes ex_state_both_changed 2)"
    by (simp_all add: syncEqual_cloud_def syncEqual_fs_def fingerprint_eq_def ex_defs
        ex_state_both_changed_def)
  have f: "stall ex_state_both_changed = []" "trace ex_state_both_changed = []"
    "fsaccess ex_state_both_changed = fsa_init"
    by (simp_all add: ex_defs ex_state_both_changed_def)
  from syncItem_both_changed [OF r ex_reaches_changed ne, of ex_env ex_parentRow "[''root'', ''a.txt'']"]
  show ?thesis
    using ex_reaches_changed ne f by simp
qed


subsection \<open>Rows with a side gone\<close>

text \<open>
  C4, as stated, fails: the cloud node of \<open>a.txt\<close> is gone, the local scan is not
  complete (\<^verbatim>\<open>fsStateCurrent\<close> is false), and the file is moved to the local debris
  all the same, because \<^verbatim>\<open>resolve_cloudNodeGone\<close> asks only whether the cloud
  state is current.
\<close>

theorem resolve_cloudNodeGone_before_scan_complete:
  "\<not> fsStateCurrent ex_state_cloud_gone
   \<and> (case syncItem ex_env ex_state_cloud_gone ex_row_cloud_gone ex_parentRow [''root'', ''a.txt''] of
         Inl f \<Rightarrow> False
       | Inr (r, row', st') \<Rightarrow>
           \<not> r \<and> trace st' = [Fs_renamelocal [''root'', ''a.txt'']
                                 [''root'', ''.debris'', ''2026-10-30'', ''a.txt''] False]
           \<and> ln_fsid (localnodes st' 2) = UNDEF)"
  by (simp add: syncItem_defs ex_defs ex_state_cloud_gone_def ex_row_cloud_gone_def
      resolve_cloudNodeGone_def movetolocaldebris_def movetolocaldebris_loop.simps [of _ _ _ _ "-3"]
      movetolocaldebris_round_def appendWithSeparator_def leafname_def debris_day_def printf_0d_def
      setfsid_def)


subsection \<open>Moves detected by fsid\<close>

lemma frange_Some:
  "findLocalNodeByFsid_range st fsn sy ls = Some l \<Longrightarrow> l \<in> set ls \<and> fsid_match st fsn sy l"
  by (induction ls) (auto simp: Let_def fsid_match_def split: if_splits)


lemma find_Some:
  assumes "findLocalNodeByFsid st fsn sy = Some l"
  shows "fs_fsid fsn \<noteq> UNDEF" "(fs_fsid fsn, l) \<in> set (localnodeByFsid st)" "fsid_match st fsn sy l"
proof -
  from assms show u: "fs_fsid fsn \<noteq> UNDEF"
    by (auto simp: findLocalNodeByFsid_def split: if_splits)
  with assms have "findLocalNodeByFsid_range st fsn sy
      (map snd (filter (\<lambda>(k, l). k = fs_fsid fsn) (localnodeByFsid st))) = Some l"
    by (simp add: findLocalNodeByFsid_def)
  from frange_Some [OF this]
  show "(fs_fsid fsn, l) \<in> set (localnodeByFsid st)" "fsid_match st fsn sy l"
    by auto
qed


lemma findLocalNodeByFsid_other_sync:
  "findLocalNodeByFsid st fsn sy = Some l \<Longrightarrow> ln_sync (localnodes st l) \<noteq> sy"
  using find_Some(3) [of st fsn sy l] by (simp add: fsid_match_def)

lemma findLocalNodeByFsid_same_sync_example:
  "(101, 2) \<in> set (localnodeByFsid ex_state) \<and> ln_sync (localnodes ex_state 2) = this_sync ex_state
   \<and> findLocalNodeByFsid ex_state (ex_fsnode\<lparr>fs_localname := [''a2.txt'']\<rparr>) (this_sync ex_state) = None"
  by (simp add: findLocalNodeByFsid_def ex_defs UNDEF_def)



lemma checkLocalPath_symlink:
  "syncNode row = None \<Longrightarrow> fsNode row = Some fsn \<Longrightarrow> fs_isSymlink fsn
     \<Longrightarrow> checkLocalPathForMovesRenames e st row parentRow fullPath = Inl NullPointerDereference"
  by (simp add: checkLocalPathForMovesRenames_def)

text \<open>
  C6. A symlink in the scanned folder that has no LocalNode: the row reaches
  \<^verbatim>\<open>checkLocalPathForMovesRenames\<close>, whose symlink branch calls
  \<^verbatim>\<open>row.syncNode->setUseBlocked()\<close> on the null pointer.
\<close>

theorem checkLocalPath_symlink_null_dereference:
  "checkLocalPathForMovesRenames ex_env ex_state ex_row_symlink ex_parentRow [''root'', ''link'']
     = Inl NullPointerDereference
   \<and> syncItem ex_env ex_state ex_row_symlink ex_parentRow [''root'', ''link'']
     = Inl NullPointerDereference"
  by (simp add: syncItem_defs ex_defs ex_row_symlink_def checkLocalPathForMovesRenames_def)

theorem checkLocalPath_symlink_null_dereference_witness:
  "map_option fs_isSymlink (fsNode ex_row_symlink) = Some True \<and> syncNode ex_row_symlink = None
   \<and> syncItem ex_env ex_state ex_row_symlink ex_parentRow [''root'', ''link'']
       = Inl NullPointerDereference"
  using checkLocalPath_symlink_null_dereference by (simp add: ex_row_symlink_def)





subsection \<open>Serialization of a file\<close>

lemma length_le_bytes [simp]: "length (le_bytes k n) = k"
  by (induction k arbitrary: n) simp_all

lemma le_nat_le_bytes: "le_nat (le_bytes k n) = n mod 256 ^ k"
proof (induction k arbitrary: n)
  case 0
  show ?case by simp
next
  case (Suc k)
  have "unat (of_nat (n mod 256) :: byte) = n mod 256"
    by (simp add: unat_of_nat)
  then show ?case
    using Suc [of "n div 256"] by (simp add: mod_mult2_eq)
qed

lemma take_le_bytes [simp]: "take k (le_bytes k n @ r) = le_bytes k n"
  by simp

lemma drop_le_bytes [simp]: "drop k (le_bytes k n @ r) = r"
  by simp

lemma get_string_put_string:
  assumes "length str < 65536" "need \<le> length r"
  shows "get_string need (put_string str @ r) = Some (str, r)"
proof -
  have "le_nat (le_bytes 2 (length str)) = length str"
    using assms(1) by (simp only: le_nat_le_bytes) simp
  then show ?thesis
    using assms by (simp add: get_string_def put_string_def Let_def)
qed

lemma length_put_string: "length str < 65536 \<Longrightarrow> length (put_string str) = 2 + length str"
  by (simp add: put_string_def Let_def)

lemma get_bool_put_bool [simp]: "get_bool (put_bool b @ r) = b"
  by (simp add: get_bool_def put_bool_def)

lemma drop_put_bool [simp]: "drop (Suc 0) (put_bool b @ r) = r"
  by (simp add: put_bool_def)

lemma length_put_bool [simp]: "length (put_bool b) = 1"
  by (simp add: put_bool_def)

lemma handle_roundtrip: "(of_nat (le_nat (le_bytes 8 (unat x))) :: handle) = x"
proof -
  have "unat x < 2 ^ LENGTH(64)"
    by (rule unsigned_less)
  then have "le_nat (le_bytes 8 (unat x)) = unat x"
    by (simp only: le_nat_le_bytes) simp
  then show ?thesis by simp
qed

lemma takeWhile_nonzero: "0 \<notin> set ca \<Longrightarrow> takeWhile (\<lambda>b. b \<noteq> 0) ca = ca"
  by (induction ca) auto

text \<open>
  C10. Let \<^verbatim>\<open>FileFingerprint::unserialize\<close> read back what
  \<^verbatim>\<open>FileFingerprint::serialize\<close> writes, let the five strings of the file and its
  chat-auth string be shorter than 65536 bytes, the key have its
  \<^verbatim>\<open>FILENODEKEYLENGTH\<close> bytes and the chat-auth string, being a C string, hold no zero
  byte. Then \<^verbatim>\<open>File::unserialize\<close> succeeds on what \<^verbatim>\<open>File::serialize\<close> wrote,
  whatever follows it, leaves exactly what follows, and the file it builds has the same
  fingerprint, name, local name, target user, private and public auth, handle, key,
  the same four flags and the same chat-auth string; an empty chat-auth string comes
  back as no string.
\<close>

theorem unserialize_serialize:
  assumes codec: "\<And>fp bs r. fp_serialize fp = Some bs \<Longrightarrow> fp_unserialize (bs @ r) = Some (fp, r)"
    and len: "length (f_name f) < 65536" "length (f_localname f) < 65536"
      "length (f_targetuser f) < 65536" "length (f_privauth f) < 65536"
      "length (f_pubauth f) < 65536"
    and chat: "\<And>ca. f_chatauth f = Some ca \<Longrightarrow> length ca < 65536 \<and> 0 \<notin> set ca"
    and key: "length (f_filekey f) = FILENODEKEYLENGTH"
    and ser: "serialize fp_serialize type f [] = Some out"
  shows "\<exists>f'. unserialize fp_unserialize (out @ rest) = Some (f', rest)
           \<and> f_fingerprint f' = f_fingerprint f \<and> f_name f' = f_name f
           \<and> f_localname f' = f_localname f \<and> f_targetuser f' = f_targetuser f
           \<and> f_privauth f' = f_privauth f \<and> f_pubauth f' = f_pubauth f
           \<and> f_h f' = f_h f \<and> f_filekey f' = f_filekey f
           \<and> f_hprivate f' = f_hprivate f \<and> f_hforeign f' = f_hforeign f
           \<and> f_syncxfer f' = f_syncxfer f \<and> f_temporaryfile f' = f_temporaryfile f
           \<and> chatauth_string f' = chatauth_string f
           \<and> f_chatauth f' = (if f_chatauth f = Some [] then None else f_chatauth f)"
proof -
  from ser obtain fpbytes where fp: "fp_serialize (f_fingerprint f) = Some fpbytes"
    by (auto simp: serialize_def split: option.splits)
  define hasChatAuth where "hasChatAuth = (case f_chatauth f of None \<Rightarrow> False | Some ca \<Rightarrow> ca \<noteq> [])"
  define tail where "tail = (if hasChatAuth then put_string (the (f_chatauth f)) else []) @ rest"
  define c where "c = le_bytes 8 (unat (f_h f)) @ f_filekey f @ put_bool (f_hprivate f)
      @ put_bool (f_hforeign f) @ put_bool (f_syncxfer f) @ put_bool (f_temporaryfile f)
      @ put_bool hasChatAuth @ replicate 8 0 @ tail"
  define b4 where "b4 = put_string (f_pubauth f) @ c"
  define b3 where "b3 = put_string (f_privauth f) @ b4"
  define b2 where "b2 = put_string (f_targetuser f) @ b3"
  define b1 where "b1 = put_string (f_localname f) @ b2"
  define body where "body = put_string (f_name f) @ b1"
  have out: "out @ rest = type # fpbytes @ body"
    using ser fp
    by (auto simp: serialize_def Let_def body_def b1_def b2_def b3_def b4_def c_def tail_def
        hasChatAuth_def)
  have u0: "fp_unserialize (tl (out @ rest)) = Some (f_fingerprint f, body)"
    by (simp add: out codec [OF fp])
  have lc: "53 \<le> length c"
    by (simp add: c_def key FILENODEKEYLENGTH_def)
  have l4: "2 \<le> length b4" by (simp add: b4_def length_put_string len)
  have l3: "2 \<le> length b3" by (simp add: b3_def length_put_string len)
  have l2: "2 \<le> length b2" by (simp add: b2_def length_put_string len)
  have l1: "2 \<le> length b1" by (simp add: b1_def length_put_string len)
  have l0: "\<not> 2 > length body" by (simp add: body_def length_put_string len)
  have g: "get_string 2 body = Some (f_name f, b1)"
    "get_string 2 b1 = Some (f_localname f, b2)"
    "get_string 2 b2 = Some (f_targetuser f, b3)"
    "get_string 2 b3 = Some (f_privauth f, b4)"
    "get_string 53 b4 = Some (f_pubauth f, c)"
    using l1 l2 l3 l4 lc
    by (simp_all add: body_def b1_def b2_def b3_def b4_def get_string_put_string len)
  have ne: "out = [] \<longrightarrow> rest \<noteq> []"
    using out by auto
  have kl: "length (f_filekey f) = 32"
    using key by (simp add: FILENODEKEYLENGTH_def)
  have c1: "take 8 c = le_bytes 8 (unat (f_h f))"
    by (simp add: c_def)
  have c2: "take 32 (drop 8 c) = f_filekey f"
    by (simp add: c_def kl)
  have c3: "get_bool (drop 40 c) = f_hprivate f"
    by (simp add: c_def kl)
  have c4: "get_bool (drop 41 c) = f_hforeign f"
    by (simp add: c_def kl)
  have c5: "get_bool (drop 42 c) = f_syncxfer f"
    by (simp add: c_def kl)
  have c6: "get_bool (drop 43 c) = f_temporaryfile f"
    by (simp add: c_def kl)
  have c7: "get_bool (drop 44 c) = hasChatAuth"
    by (simp add: c_def kl)
  have c8: "take 8 (drop 45 c) = replicate 8 0"
    by (simp add: c_def kl)
  have c9: "drop 53 c = tail"
    by (simp add: c_def kl)
  show ?thesis
  proof (cases hasChatAuth)
    case False
    then have ca: "f_chatauth f = None \<or> f_chatauth f = Some []"
      by (auto simp: hasChatAuth_def split: option.splits)
    have "unserialize fp_unserialize (out @ rest)
            = Some (File_new\<lparr>f_fingerprint := f_fingerprint f, f_name := f_name f,
                      f_localname := f_localname f, f_targetuser := f_targetuser f,
                      f_privauth := f_privauth f, f_pubauth := f_pubauth f, f_h := f_h f,
                      f_filekey := f_filekey f, f_hprivate := f_hprivate f,
                      f_hforeign := f_hforeign f, f_syncxfer := f_syncxfer f,
                      f_temporaryfile := f_temporaryfile f\<rparr>, rest)"
      unfolding unserialize_def
      using False
      by (simp add: ne u0 l0 g FILENODEKEYLENGTH_def)
        (simp add: Let_def c1 c2 c3 c4 c5 c6 c7 c8 c9 handle_roundtrip tail_def)
    with ca show ?thesis
      by (auto simp: chatauth_string_def File_new_def)
  next
    case True
    then obtain ca where ca: "f_chatauth f = Some ca" "ca \<noteq> []"
      by (auto simp: hasChatAuth_def split: option.splits)
    from chat [OF ca(1)] have cl: "length ca < 65536" "0 \<notin> set ca"
      by simp_all
    have n: "le_nat (le_bytes 2 (length ca)) = length ca"
      using cl(1) by (simp only: le_nat_le_bytes) simp
    have t: "tail = le_bytes 2 (length ca) @ ca @ rest"
      using True ca cl by (simp add: tail_def put_string_def Let_def)
    have "unserialize fp_unserialize (out @ rest)
            = Some (File_new\<lparr>f_fingerprint := f_fingerprint f, f_name := f_name f,
                      f_localname := f_localname f, f_targetuser := f_targetuser f,
                      f_privauth := f_privauth f, f_pubauth := f_pubauth f, f_h := f_h f,
                      f_filekey := f_filekey f, f_hprivate := f_hprivate f,
                      f_hforeign := f_hforeign f, f_syncxfer := f_syncxfer f,
                      f_temporaryfile := f_temporaryfile f, f_chatauth := Some ca\<rparr>, rest)"
      unfolding unserialize_def
      using True ca cl
      by (simp add: ne u0 l0 g FILENODEKEYLENGTH_def)
        (simp add: Let_def c1 c2 c3 c4 c5 c6 c7 c8 c9 handle_roundtrip t n takeWhile_nonzero)
    with ca show ?thesis
      by (auto simp: chatauth_string_def)
  qed
qed

lemma ex_fp_codec:
  "ex_fp_serialize fp = Some bs \<Longrightarrow> ex_fp_unserialize (bs @ r) = Some (fp, r)"
proof -
  assume a: "ex_fp_serialize fp = Some bs"
  then have fp: "fp = FileFingerprint_init\<lparr>fp_size := int (nat (fp_size fp) mod 2 ^ 64)\<rparr>"
    and bs: "bs = le_bytes 8 (nat (fp_size fp))"
    by (auto simp: ex_fp_serialize_def split: if_splits)
  have "le_nat (le_bytes 8 (nat (fp_size fp))) = nat (fp_size fp) mod 2 ^ 64"
    by (simp only: le_nat_le_bytes) simp
  then have "ex_fp_unserialize (bs @ r)
               = Some (FileFingerprint_init\<lparr>fp_size := int (nat (fp_size fp) mod 2 ^ 64)\<rparr>, r)"
    by (simp add: ex_fp_unserialize_def bs)
  with fp show ?thesis by simp
qed

theorem unserialize_serialize_witness:
  "ex_fp_serialize (f_fingerprint ex_File) = Some (le_bytes 8 10)
   \<and> ex_fp_unserialize (le_bytes 8 10 @ [7, 7]) = Some (f_fingerprint ex_File, [7, 7])
   \<and> (\<exists>out. serialize ex_fp_serialize 1 ex_File [] = Some out
         \<and> (\<exists>f'. unserialize ex_fp_unserialize (out @ [7, 7]) = Some (f', [7, 7])
               \<and> f_fingerprint f' = FileFingerprint_init\<lparr>fp_size := 10\<rparr>
               \<and> f_name f' = [97, 46, 116, 120, 116] \<and> f_localname f' = [47, 114, 47, 97]
               \<and> f_h f' = 501 \<and> f_hprivate f' \<and> f_hforeign f'
               \<and> f_chatauth f' = Some [99, 97]))"
proof -
  have s: "\<exists>out. serialize ex_fp_serialize 1 ex_File [] = Some out"
    by (simp add: serialize_def ex_fp_serialize_def ex_File_def File_new_def FileFingerprint_init_def)
  then obtain out where out: "serialize ex_fp_serialize 1 ex_File [] = Some out" ..
  have l: "length (f_name ex_File) < 65536" "length (f_localname ex_File) < 65536"
    "length (f_targetuser ex_File) < 65536" "length (f_privauth ex_File) < 65536"
    "length (f_pubauth ex_File) < 65536" "length (f_filekey ex_File) = FILENODEKEYLENGTH"
    by (simp_all add: ex_File_def File_new_def)
  have c: "\<And>ca. f_chatauth ex_File = Some ca \<Longrightarrow> length ca < 65536 \<and> 0 \<notin> set ca"
    by (auto simp: ex_File_def)
  from unserialize_serialize [of ex_fp_serialize ex_fp_unserialize ex_File 1 out "[7, 7]",
      OF ex_fp_codec l(1-5) c l(6) out]
  have "\<exists>f'. unserialize ex_fp_unserialize (out @ [7, 7]) = Some (f', [7, 7])
               \<and> f_fingerprint f' = FileFingerprint_init\<lparr>fp_size := 10\<rparr>
               \<and> f_name f' = [97, 46, 116, 120, 116] \<and> f_localname f' = [47, 114, 47, 97]
               \<and> f_h f' = 501 \<and> f_hprivate f' \<and> f_hforeign f'
               \<and> f_chatauth f' = Some [99, 97]"
    by (auto simp: ex_File_def File_new_def)
  moreover have e: "ex_fp_serialize (f_fingerprint ex_File) = Some (le_bytes 8 10)"
    by (simp add: ex_fp_serialize_def ex_File_def File_new_def FileFingerprint_init_def)
  moreover note ex_fp_codec [OF e, of "[7, 7]"] out
  ultimately show ?thesis
    by blast
qed


end
